theory Spec2Isabelle
  imports Complex_Main "HOL-Library.Sublist"
begin

section \<open>Values of the host language\<close>

text \<open>
  The sync module of the Notesnook core (the classes \<^verbatim>\<open>SyncManager\<close> and
  \<^verbatim>\<open>Sync\<close> and the functions \<^verbatim>\<open>promiseTimeout\<close> and
  \<^verbatim>\<open>deserializeItem\<close>; line numbers are those of its source file) is written in
  TypeScript. Strings are modelled as \<^typ>\<open>string\<close> (8-bit characters: the texts the
  code inspects are ASCII), a JSON value as the datatype \<open>json\<close> (numbers as integers:
  no field read here is fractional), an absent property (\<^verbatim>\<open>undefined\<close>) as
  \<open>None\<close>.
\<close>

datatype json =
    JNull
  | JBool bool
  | JNum int
  | JStr string
  | JArr "json list"
  | JObj "(string \<times> json) list"

text \<open>Truthiness of a property read: \<^verbatim>\<open>undefined\<close>, \<^verbatim>\<open>null\<close>,
  \<^verbatim>\<open>false\<close>, \<^verbatim>\<open>0\<close> and \<^verbatim>\<open>""\<close> are falsy, everything else is truthy.\<close>

fun truthy :: "json option \<Rightarrow> bool" where
  "truthy None = False"
| "truthy (Some JNull) = False"
| "truthy (Some (JBool b)) = b"
| "truthy (Some (JNum n)) = (n \<noteq> 0)"
| "truthy (Some (JStr s)) = (s \<noteq> [])"
| "truthy (Some (JArr xs)) = True"
| "truthy (Some (JObj kvs)) = True"

text \<open>
  What a \<^verbatim>\<open>throw\<close> can deliver. \<open>Error m\<close> is an instance of \<^verbatim>\<open>Error\<close> with
  message \<open>m\<close>; \<open>TypeError m\<close> is the engine's own \<^verbatim>\<open>TypeError\<close> (also an
  instance of \<^verbatim>\<open>Error\<close>); \<open>NonError mo\<close> is any other thrown value, with its
  \<^verbatim>\<open>message\<close> property when that is a string.
\<close>

datatype thrown =
    Error string
  | TypeError string
  | NonError "string option"

fun message :: "thrown \<Rightarrow> string option" where
  "message (Error m) = Some m"
| "message (TypeError m) = Some m"
| "message (NonError mo) = mo"

subsection \<open>String operations\<close>

text \<open>\<^verbatim>\<open>String.prototype.includes\<close>: the second string occurs in the first.\<close>

fun str_includes :: "string \<Rightarrow> string \<Rightarrow> bool" where
  "str_includes [] sub = (sub = [])"
| "str_includes (c # cs) sub = (prefix sub (c # cs) \<or> str_includes cs sub)"

definition toLowerCase_char :: "char \<Rightarrow> char" where
  "toLowerCase_char c =
     (case map_of (zip ''ABCDEFGHIJKLMNOPQRSTUVWXYZ'' ''abcdefghijklmnopqrstuvwxyz'') c of
        Some l \<Rightarrow> l
      | None \<Rightarrow> c)"

definition toLowerCase :: "string \<Rightarrow> string" where
  "toLowerCase s = map toLowerCase_char s"

text \<open>Decimal rendering of a non-negative integral number, as string concatenation
  with a number produces it.\<close>

definition digit_char :: "nat \<Rightarrow> char" where
  "digit_char d = ''0123456789'' ! d"

fun string_of_nat :: "nat \<Rightarrow> string" where
  "string_of_nat n =
     (if n < 10 then [digit_char n]
      else string_of_nat (n div 10) @ [digit_char (n mod 10)])"

definition is_line_terminator :: "char \<Rightarrow> bool" where
  "is_line_terminator c = (c = CHR 0x0A \<or> c = CHR 0x0D)"

text \<open>
  \<^verbatim>\<open>/HubException: (.*)/gm.exec(s)\<close> on a fresh regular expression: the leftmost
  occurrence of the literal text, and as group 1 the rest of that line (the dot does not
  match a line terminator). The result is the captured group, \<open>None\<close> for \<^verbatim>\<open>null\<close>.
\<close>

fun exec_HubException :: "string \<Rightarrow> string option" where
  "exec_HubException [] = None"
| "exec_HubException (c # cs) =
     (if prefix ''HubException: '' (c # cs)
      then Some (takeWhile (\<lambda>x. \<not> is_line_terminator x) (drop (length ''HubException: '') (c # cs)))
      else exec_HubException cs)"

section \<open>Items and their deserialization\<close>

text \<open>
  An item is the object \<^verbatim>\<open>JSON.parse\<close> returns. The properties the sync core reads
  or writes are fields of the record; every other property travels in \<open>rest\<close>. A
  payload that parses to something else than an object (a number, a string,
  \<^verbatim>\<open>null\<close>) is not an item and is not modelled.
\<close>

record item =
  item_id :: "json option"
  type :: "json option"
  itemType :: "json option"
  title :: "json option"
  cipher :: "json option"
  remote :: "json option"
  synced :: "json option"
  rest :: "(string \<times> json) list"

type_synonym version = rat

datatype migration_result = Skip | Changed bool

datatype migration_context = Sync_ctx | Backup_ctx

text \<open>One call of \<^verbatim>\<open>migrateItem\<close>: the type it was given and its context.\<close>

type_synonym migrate_call = "json option \<times> migration_context"

text \<open>
  What \<^verbatim>\<open>deserializeItem\<close> takes from other modules. \<^verbatim>\<open>migrateItem\<close>
  (module \<^verbatim>\<open>migrations\<close>) mutates the item it is given and reports
  \<^verbatim>\<open>"skip"\<close> or whether it changed something, so here it returns the item as it
  left it (the database handle it also receives is left out); \<^verbatim>\<open>COLORS\<close> and
  \<^verbatim>\<open>CURRENT_DATABASE_VERSION\<close> are constants of other modules.
\<close>

record deserializer_env =
  JSON_parse :: "string \<Rightarrow> thrown + item"
  migrateItem :: "item \<Rightarrow> version \<Rightarrow> version \<Rightarrow> json option \<Rightarrow> migration_context
                    \<Rightarrow> thrown + (migration_result \<times> item)"
  COLORS :: "string list"
  CURRENT_DATABASE_VERSION :: version

text \<open>
  The expression bound to the local constant \<^verbatim>\<open>itemType\<close> (lines 439-445).
  \<^verbatim>\<open>item.title.toLowerCase()\<close> raises a \<^verbatim>\<open>TypeError\<close> when the title is
  not a string.
\<close>

definition resolve_itemType :: "string list \<Rightarrow> item \<Rightarrow> thrown + json option" where
  "resolve_itemType colors it =
     (case (if type it = Some (JStr ''tag'')
            then (case title it of
                    Some (JStr t) \<Rightarrow> Inr (toLowerCase t \<in> set colors)
                  | _ \<Rightarrow> Inl (TypeError ''item.title.toLowerCase is not a function''))
            else Inr False) of
        Inl e \<Rightarrow> Inl e
      | Inr True \<Rightarrow> Inr (Some (JStr ''color''))
      | Inr False \<Rightarrow>
          if type it = Some (JStr ''trash'') \<and> itemType it \<noteq> None \<and> truthy (itemType it)
          then Inr (itemType it)
          else Inr (type it))"

text \<open>Lines 439-451: resolve the type, drop or keep, mark as unsynced.\<close>

definition deserialize_finish ::
  "deserializer_env \<Rightarrow> migrate_call list \<Rightarrow> migration_result \<Rightarrow> item
     \<Rightarrow> migrate_call list \<times> (thrown + item option)" where
  "deserialize_finish env calls migrationResult it =
     (case resolve_itemType (COLORS env) it of
        Inl e \<Rightarrow> (calls, Inl e)
      | Inr itemType' \<Rightarrow>
          if \<not> truthy itemType' \<or> itemType' = Some (JStr ''topic'')
               \<or> itemType' = Some (JStr ''settings'')
          then (calls, Inr None)
          else if migrationResult = Changed True
          then (calls, Inr (Some (it\<lparr>synced := Some (JBool False)\<rparr>)))
          else (calls, Inr (Some it)))"

text \<open>
  \<^verbatim>\<open>deserializeItem\<close> (lines 405-452). The result is the list of
  \<^verbatim>\<open>migrateItem\<close> calls made, in order, and what the function returns:
  \<open>Inr None\<close> is the bare \<^verbatim>\<open>return\<close>, \<open>Inl\<close> a rejection.
\<close>

definition deserializeItem ::
  "deserializer_env \<Rightarrow> string \<Rightarrow> version \<Rightarrow> migrate_call list \<times> (thrown + item option)" where
  "deserializeItem env decryptedItem v =
     (case JSON_parse env decryptedItem of
        Inl e \<Rightarrow> ([], Inl e)
      | Inr parsed \<Rightarrow>
          let it = parsed\<lparr>remote := Some (JBool True), synced := Some (JBool True)\<rparr> in
          if \<not> truthy (cipher it) then
            (case migrateItem env it v (CURRENT_DATABASE_VERSION env) (type it) Sync_ctx of
               Inl e \<Rightarrow> ([(type it, Sync_ctx)], Inl e)
             | Inr (Skip, it1) \<Rightarrow> ([(type it, Sync_ctx)], Inr None)
             | Inr (Changed r1, it1) \<Rightarrow>
                 if type it1 = Some (JStr ''trash'') \<and> truthy (itemType it1) then
                   (case migrateItem env it1 v (CURRENT_DATABASE_VERSION env) (itemType it1) Backup_ctx of
                      Inl e \<Rightarrow> ([(type it, Sync_ctx), (itemType it1, Backup_ctx)], Inl e)
                    | Inr (Skip, it2) \<Rightarrow>
                        ([(type it, Sync_ctx), (itemType it1, Backup_ctx)], Inr None)
                    | Inr (Changed r2, it2) \<Rightarrow>
                        deserialize_finish env
                          [(type it, Sync_ctx), (itemType it1, Backup_ctx)] (Changed r2) it2)
                 else deserialize_finish env [(type it, Sync_ctx)] (Changed r1) it1)
          else ([], Inr (Some it)))"

section \<open>The world outside the sync core\<close>

text \<open>
  Everything the sync core calls and does not define (the hub connection, the local
  store, the vault, the collector, the merger, the device registry, the token manager,
  the loggers and the event buses) is outside. Each call is recorded, in order, as an
  \<open>effect\<close> in the \<open>trace\<close> of the world; what the call returns is a parameter:
  a function of the trace so far, so that two calls of the same operation may differ.
\<close>

datatype hub_state = Disconnected | Connecting | Connected | Disconnecting | Reconnecting

text \<open>The state of the promise \<^verbatim>\<open>connection.start()\<close> returned, at the moment the
  timer of \<^verbatim>\<open>promiseTimeout\<close> fires.\<close>

datatype settle = Fulfilled | Rejected thrown | Unsettled

record serializedKey =
  sk_key :: "string option"
  sk_salt :: "string option"

record vaultKey =
  vk_cipher :: "json option"
  vk_iv :: "json option"
  vk_salt :: "json option"
  vk_length :: "json option"

record serverResponse =
  sr_vaultKey :: "vaultKey option"

record transfer_item =
  ti_id :: string
  ti_v :: version
  ti_payload :: string

text \<open>\<^verbatim>\<open>SyncTransferItem\<close>: a batch of one declared type.\<close>

record syncTransferItem =
  st_type :: string
  st_items :: "transfer_item list"

record attachment =
  hash :: string
  chunkSize :: nat

record user =
  isEmailConfirmed :: bool

datatype sync_check_id = SYNC_CHECK_sync | SYNC_CHECK_autoSync

datatype event =
    syncAborted
  | syncCompleted
  | userSessionExpired
  | syncItemMerged "item option"

datatype effect =
    ConnectionStop
  | ConnectionStart
  | ConnectionOff string
  | ConnectionOn string
  | ConnectionOnclose
  | Invoke_RequestFetch string
  | Send_InitializePush "vaultKey option"
  | Invoke_PushItems string syncTransferItem
  | Send_PushCompleted
  | HandlerThrew thrown
  | ConsoleError thrown
  | LoggerWarn string
  | LoggerError string
  | Publish event
  | SyncProgress string nat
  | DecryptMulti serializedKey "transfer_item list"
  | Records string "string list"
  | Put string "item option list"
  | VaultGetKey
  | VaultSetKey vaultKey
  | GetEncryptionKey
  | GetUser
  | CheckSyncStatus sync_check_id
  | DevicesUnregister
  | DevicesRegister
  | DevicesGet
  | MonographsRefresh
  | StorageWrite string
  | PendingAttachments
  | QueueUploads "(string \<times> nat) list" string
  | Collector_collect nat "bool option"
  | AutoSyncStart
  | RefreshToken bool

record world =
  trace :: "effect list"
  sendItems_handlers :: "serializedKey list"

record env =
  denv :: deserializer_env
  SYNC_COLLECTIONS_MAP :: "string \<Rightarrow> string option"
  connection_state :: "effect list \<Rightarrow> hub_state"
  on_void :: "effect list \<Rightarrow> thrown option"
  on_start :: "effect list \<Rightarrow> settle"
  on_checkSyncStatus :: "effect list \<Rightarrow> thrown + bool"
  on_getUser :: "effect list \<Rightarrow> thrown + user option"
  on_getEncryptionKey :: "effect list \<Rightarrow> thrown + serializedKey option"
  on_devices_get :: "effect list \<Rightarrow> thrown + string option"
  on_RequestFetch_deliveries :: "effect list \<Rightarrow> syncTransferItem list"
  on_RequestFetch :: "effect list \<Rightarrow> thrown + serverResponse"
  on_PushItems :: "effect list \<Rightarrow> thrown + json"
  on_vault_getKey :: "effect list \<Rightarrow> thrown + vaultKey option"
  on_collect :: "effect list \<Rightarrow> syncTransferItem list \<times> thrown option"
  on_pending_attachments :: "effect list \<Rightarrow> thrown + attachment list"
  on_decryptMulti :: "effect list \<Rightarrow> thrown + string list"
  on_records :: "effect list \<Rightarrow> thrown + (json option \<Rightarrow> item option)"
  mergeContent :: "item \<Rightarrow> item option \<Rightarrow> thrown + item option"
  mergeItemAsync :: "item \<Rightarrow> item option \<Rightarrow> string \<Rightarrow> thrown + item option"
  mergeItemSync :: "item \<Rightarrow> item option \<Rightarrow> string \<Rightarrow> thrown + item option"

subsection \<open>Asynchronous code as a state and exception monad\<close>

type_synonym 'a M = "world \<Rightarrow> (thrown + 'a) \<times> world"

definition returnM :: "'a \<Rightarrow> 'a M" where
  "returnM x = (\<lambda>w. (Inr x, w))"

definition throwM :: "thrown \<Rightarrow> 'a M" where
  "throwM e = (\<lambda>w. (Inl e, w))"

definition bindM :: "'a M \<Rightarrow> ('a \<Rightarrow> 'b M) \<Rightarrow> 'b M" where
  "bindM m f = (\<lambda>w. case m w of (Inl e, w') \<Rightarrow> (Inl e, w') | (Inr x, w') \<Rightarrow> f x w')"

definition catchM :: "'a M \<Rightarrow> (thrown \<Rightarrow> 'a M) \<Rightarrow> 'a M" where
  "catchM m h = (\<lambda>w. case m w of (Inl e, w') \<Rightarrow> h e w' | (Inr x, w') \<Rightarrow> (Inr x, w'))"

definition liftM :: "thrown + 'a \<Rightarrow> 'a M" where
  "liftM r = (\<lambda>w. (r, w))"

text \<open>A call to the outside: the effect is recorded, the reply read from the trace.\<close>

definition call :: "effect \<Rightarrow> (effect list \<Rightarrow> thrown + 'a) \<Rightarrow> 'a M" where
  "call ev reply = (\<lambda>w. (reply (trace w @ [ev]), w\<lparr>trace := trace w @ [ev]\<rparr>))"

text \<open>A call that returns nothing.\<close>

definition void :: "env \<Rightarrow> effect \<Rightarrow> unit M" where
  "void env ev = call ev (\<lambda>tr. case on_void env tr of None \<Rightarrow> Inr () | Some e \<Rightarrow> Inl e)"

text \<open>A call that cannot fail (logging, publishing an event).\<close>

definition emit :: "effect \<Rightarrow> unit M" where
  "emit ev = (\<lambda>w. (Inr (), w\<lparr>trace := trace w @ [ev]\<rparr>))"

fun emits :: "effect list \<Rightarrow> unit M" where
  "emits [] = returnM ()"
| "emits (ev # evs) = bindM (emit ev) (\<lambda>_. emits evs)"

text \<open>Reading \<^verbatim>\<open>this.connection.state\<close>.\<close>

definition get_state :: "env \<Rightarrow> hub_state M" where
  "get_state env = (\<lambda>w. (Inr (connection_state env (trace w)), w))"

text \<open>\<^verbatim>\<open>Promise.all\<close>: the results in order, or a rejection (the first in the list).\<close>

fun Promise_all :: "(thrown + 'a) list \<Rightarrow> thrown + 'a list" where
  "Promise_all [] = Inr []"
| "Promise_all (Inl e # rs) = Inl e"
| "Promise_all (Inr x # rs) = (case Promise_all rs of Inl e \<Rightarrow> Inl e | Inr xs \<Rightarrow> Inr (x # xs))"

text \<open>\<^verbatim>\<open>.filter(Boolean)\<close> on a list of items or \<^verbatim>\<open>undefined\<close>.\<close>

fun filter_Boolean :: "'a option list \<Rightarrow> 'a list" where
  "filter_Boolean [] = []"
| "filter_Boolean (None # xs) = filter_Boolean xs"
| "filter_Boolean (Some x # xs) = x # filter_Boolean xs"

section \<open>The connection\<close>

text \<open>\<^verbatim>\<open>promiseTimeout\<close> (lines 393-403): the race of the promise and a timer.\<close>

definition promiseTimeout :: "nat \<Rightarrow> settle M \<Rightarrow> unit M" where
  "promiseTimeout ms promise =
     bindM promise (\<lambda>p.
       case p of
         Fulfilled \<Rightarrow> returnM ()
       | Rejected e \<Rightarrow> throwM e
       | Unsettled \<Rightarrow> throwM (Error (''Sync timed out in '' @ string_of_nat ms @ ''ms.'')))"

definition connection_start :: "env \<Rightarrow> settle M" where
  "connection_start env = call ConnectionStart (\<lambda>tr. Inr (on_start env tr))"

text \<open>\<^verbatim>\<open>Sync.checkConnection\<close> (lines 368-390); the mutex serializes the callers, which
  are sequential here.\<close>

definition checkConnection :: "env \<Rightarrow> unit M" where
  "checkConnection env =
     catchM
       (bindM (get_state env) (\<lambda>s.
          if s \<noteq> Connected then
            bindM (if s \<noteq> Disconnected then void env ConnectionStop else returnM ()) (\<lambda>_.
              promiseTimeout 30000 (connection_start env))
          else returnM ()))
       (\<lambda>e. bindM (emit (ConsoleError e)) (\<lambda>_.
          case e of
            Error m \<Rightarrow> bindM (emit (LoggerWarn m)) (\<lambda>_.
              throwM (Error ''Could not connect to the Sync server. Please try again.''))
          | TypeError m \<Rightarrow> bindM (emit (LoggerWarn m)) (\<lambda>_.
              throwM (Error ''Could not connect to the Sync server. Please try again.''))
          | NonError mo \<Rightarrow> returnM ()))"

definition connection_off :: "string \<Rightarrow> unit M" where
  "connection_off name =
     (\<lambda>w. (Inr (), w\<lparr>trace := trace w @ [ConnectionOff name],
                      sendItems_handlers :=
                        (if name = ''SendItems'' then [] else sendItems_handlers w)\<rparr>))"

definition connection_on_SendItems :: "serializedKey \<Rightarrow> unit M" where
  "connection_on_SendItems k =
     (\<lambda>w. (Inr (), w\<lparr>trace := trace w @ [ConnectionOn ''SendItems''],
                      sendItems_handlers := sendItems_handlers w @ [k]\<rparr>))"

section \<open>Fetching\<close>

text \<open>
  The deserialization step of \<^verbatim>\<open>processChunk\<close> (lines 323-329): the callback of
  \<^verbatim>\<open>decrypted.map\<close> reads \<^verbatim>\<open>chunk.items[index].v\<close>, which raises a
  \<^verbatim>\<open>TypeError\<close> when there are more decrypted payloads than items.
\<close>

definition deserialize_chunk ::
  "deserializer_env \<Rightarrow> string list \<Rightarrow> transfer_item list \<Rightarrow> thrown + item list" where
  "deserialize_chunk de decrypted its =
     (if length its < length decrypted
      then Inl (TypeError ''Cannot read properties of undefined (reading v)'')
      else (case Promise_all (map (\<lambda>(d, t). snd (deserializeItem de d (ti_v t))) (zip decrypted its)) of
              Inl e \<Rightarrow> Inl e
            | Inr rs \<Rightarrow> Inr (filter_Boolean rs)))"

text \<open>The merge step (lines 334-352), by the declared type of the chunk.\<close>

definition merge_chunk ::
  "env \<Rightarrow> string \<Rightarrow> (json option \<Rightarrow> item option) \<Rightarrow> item list \<Rightarrow> thrown + item option list" where
  "merge_chunk env itemType' localItems deserialized =
     (if itemType' = ''content''
      then Promise_all (map (\<lambda>it. mergeContent env it (localItems (item_id it))) deserialized)
      else if itemType' = ''attachment''
      then Promise_all (map (\<lambda>it. mergeItemAsync env it (localItems (item_id it)) itemType') deserialized)
      else Promise_all (map (\<lambda>it. mergeItemSync env it (localItems (item_id it)) itemType') deserialized))"

text \<open>\<^verbatim>\<open>Sync.processChunk\<close> (lines 317-361).\<close>

definition processChunk :: "env \<Rightarrow> syncTransferItem \<Rightarrow> serializedKey \<Rightarrow> unit M" where
  "processChunk env chunk k =
     (if st_type chunk = ''settings'' then returnM ()
      else
        bindM (call (DecryptMulti k (st_items chunk)) (on_decryptMulti env)) (\<lambda>decrypted.
        bindM (liftM (deserialize_chunk (denv env) decrypted (st_items chunk))) (\<lambda>deserialized.
        bindM (case SYNC_COLLECTIONS_MAP env (st_type chunk) of
                 None \<Rightarrow> throwM (TypeError ''Cannot read properties of undefined (reading collection)'')
               | Some c \<Rightarrow> returnM c) (\<lambda>collection.
        bindM (call (Records collection (map ti_id (st_items chunk))) (on_records env)) (\<lambda>localItems.
        bindM (liftM (merge_chunk env (st_type chunk) localItems deserialized)) (\<lambda>merged.
        bindM (if (st_type chunk = ''note'' \<or> st_type chunk = ''content'') \<and> 0 < length merged
               then emits (map (\<lambda>it. Publish (syncItemMerged it)) merged)
               else returnM ()) (\<lambda>_.
        void env (Put collection merged))))))))"

text \<open>The handler \<^verbatim>\<open>Sync.fetch\<close> registers for \<^verbatim>\<open>SendItems\<close> (lines 219-229); the
  counter \<^verbatim>\<open>count\<close> of the enclosing call is passed in and returned.\<close>

definition SendItems_handler ::
  "env \<Rightarrow> serializedKey \<Rightarrow> nat \<Rightarrow> syncTransferItem \<Rightarrow> (bool \<times> nat) M" where
  "SendItems_handler env k count chunk =
     bindM (get_state env) (\<lambda>s.
       if s \<noteq> Connected then returnM (False, count)
       else
         bindM (processChunk env chunk k) (\<lambda>_.
         bindM (emit (SyncProgress ''download'' (count + length (st_items chunk)))) (\<lambda>_.
         returnM (True, count + length (st_items chunk)))))"

text \<open>
  While \<^verbatim>\<open>RequestFetch\<close> is pending the server delivers its batches, one
  \<^verbatim>\<open>SendItems\<close> invocation after the other. The hub connection catches what a handler
  throws and reports it to the server; the counter is then left as it was.
\<close>

fun deliver :: "env \<Rightarrow> serializedKey \<Rightarrow> nat \<Rightarrow> syncTransferItem list \<Rightarrow> nat M" where
  "deliver env k count [] = returnM count"
| "deliver env k count (chunk # chunks) =
     (\<lambda>w. case SendItems_handler env k count chunk w of
             (Inl e, w') \<Rightarrow> deliver env k count chunks (w'\<lparr>trace := trace w' @ [HandlerThrew e]\<rparr>)
           | (Inr (r, count'), w') \<Rightarrow> deliver env k count' chunks w')"

definition invoke_RequestFetch :: "env \<Rightarrow> string \<Rightarrow> serializedKey \<Rightarrow> serverResponse M" where
  "invoke_RequestFetch env deviceId k =
     (\<lambda>w. let w1 = w\<lparr>trace := trace w @ [Invoke_RequestFetch deviceId]\<rparr> in
           case deliver env k 0 (on_RequestFetch_deliveries env (trace w1)) w1 of
             (Inl e, w2) \<Rightarrow> (Inl e, w2)
           | (Inr count, w2) \<Rightarrow> (on_RequestFetch env (trace w2), w2))"

text \<open>The key \<^verbatim>\<open>getEncryptionKey\<close> returned, when it passes the test
  \<^verbatim>\<open>!key || !key.key || !key.salt\<close> of line 209.\<close>

definition usable_key :: "serializedKey option \<Rightarrow> serializedKey option" where
  "usable_key k =
     (case k of
        None \<Rightarrow> None
      | Some sk \<Rightarrow>
          if (case sk_key sk of None \<Rightarrow> False | Some a \<Rightarrow> a \<noteq> [])
               \<and> (case sk_salt sk of None \<Rightarrow> False | Some b \<Rightarrow> b \<noteq> [])
          then Some sk else None)"

text \<open>The vault key of the server response, when it passes the test of lines 235-241.
  The fields are compared with \<^verbatim>\<open>null\<close> only, so an absent field passes; a length
  that is not a number counts as not positive.\<close>

definition installable_vaultKey :: "serverResponse \<Rightarrow> vaultKey option" where
  "installable_vaultKey r =
     (case sr_vaultKey r of
        None \<Rightarrow> None
      | Some vk \<Rightarrow>
          if vk_cipher vk \<noteq> Some JNull \<and> vk_iv vk \<noteq> Some JNull \<and> vk_salt vk \<noteq> Some JNull
               \<and> (case vk_length vk of Some (JNum n) \<Rightarrow> 0 < n | _ \<Rightarrow> False)
          then Some vk else None)"

text \<open>\<^verbatim>\<open>Sync.fetch\<close> (lines 205-246).\<close>

definition Sync_fetch :: "env \<Rightarrow> string \<Rightarrow> unit M" where
  "Sync_fetch env deviceId =
     bindM (checkConnection env) (\<lambda>_.
     bindM (call GetEncryptionKey (on_getEncryptionKey env)) (\<lambda>k.
       case usable_key k of
         None \<Rightarrow>
           bindM (emit (LoggerError ''User encryption key not generated. Please relogin.'')) (\<lambda>_.
           emit (Publish userSessionExpired))
       | Some sk \<Rightarrow>
           bindM (connection_off ''SendItems'') (\<lambda>_.
           bindM (connection_on_SendItems sk) (\<lambda>_.
           bindM (invoke_RequestFetch env deviceId sk) (\<lambda>serverResponse'.
           bindM (case installable_vaultKey serverResponse' of
                    Some vk \<Rightarrow> void env (VaultSetKey vk)
                  | None \<Rightarrow> returnM ()) (\<lambda>_.
           connection_off ''SendItems''))))))"

section \<open>Sending\<close>

text \<open>\<^verbatim>\<open>Sync.uploadAttachments\<close> (lines 297-308).\<close>

definition uploadAttachments :: "env \<Rightarrow> unit M" where
  "uploadAttachments env =
     bindM (call PendingAttachments (on_pending_attachments env)) (\<lambda>attachments.
     void env (QueueUploads (map (\<lambda>a. (hash a, chunkSize a)) attachments) ''sync-uploads''))"

text \<open>\<^verbatim>\<open>Sync.pushItem\<close> (lines 363-366).\<close>

definition pushItem :: "env \<Rightarrow> string \<Rightarrow> syncTransferItem \<Rightarrow> bool M" where
  "pushItem env deviceId batch =
     bindM (checkConnection env) (\<lambda>_.
     bindM (call (Invoke_PushItems deviceId batch) (on_PushItems env)) (\<lambda>r.
     returnM (r = JNum 1)))"

text \<open>The lazy initialization of the push session (lines 254-261).\<close>

definition initialize_push :: "env \<Rightarrow> bool \<Rightarrow> unit M" where
  "initialize_push env isSyncInitialized =
     (if \<not> isSyncInitialized
      then bindM (call VaultGetKey (on_vault_getKey env)) (\<lambda>vk.
             void env (Send_InitializePush vk))
      else returnM ())"

text \<open>The \<^verbatim>\<open>for await\<close> loop of \<^verbatim>\<open>Sync.send\<close> (lines 253-274), over the batches
  the collector yields; the state of the loop is \<^verbatim>\<open>isSyncInitialized\<close> and
  \<^verbatim>\<open>done\<close>.\<close>

fun send_loop :: "env \<Rightarrow> string \<Rightarrow> bool \<Rightarrow> nat \<Rightarrow> syncTransferItem list \<Rightarrow> (bool \<times> nat) M" where
  "send_loop env deviceId isSyncInitialized done' [] = returnM (isSyncInitialized, done')"
| "send_loop env deviceId isSyncInitialized done' (batch # batches) =
     bindM (initialize_push env isSyncInitialized) (\<lambda>_.
     bindM (pushItem env deviceId batch) (\<lambda>result.
       if result then
         bindM (emit (SyncProgress ''upload'' (done' + length (st_items batch)))) (\<lambda>_.
         send_loop env deviceId True (done' + length (st_items batch)) batches)
       else
         bindM (emit (LoggerError ''Failed to send batch. Server returned falsy response.'')) (\<lambda>_.
         send_loop env deviceId True done' batches)))"

text \<open>\<^verbatim>\<open>Sync.send\<close> (lines 248-278). The collector yields a finite list of batches and
  may then raise.\<close>

definition Sync_send :: "env \<Rightarrow> string \<Rightarrow> bool option \<Rightarrow> bool M" where
  "Sync_send env deviceId isForceSync =
     bindM (uploadAttachments env) (\<lambda>_.
     bindM (call (Collector_collect 100 isForceSync) (\<lambda>tr. Inr (on_collect env tr))) (\<lambda>collected.
     bindM (send_loop env deviceId False 0 (fst collected)) (\<lambda>st.
     bindM (case snd collected of Some e \<Rightarrow> throwM e | None \<Rightarrow> returnM ()) (\<lambda>_.
       if \<not> fst st then returnM False
       else bindM (void env Send_PushCompleted) (\<lambda>_. returnM True)))))"

section \<open>A sync run\<close>

datatype sync_type = Full | Fetch | Send

record syncOptions =
  opt_type :: sync_type
  force :: "bool option"

text \<open>\<^verbatim>\<open>Sync.init\<close> (lines 186-203).\<close>

definition falsy_deviceId :: "string option \<Rightarrow> bool" where
  "falsy_deviceId d = (case d of None \<Rightarrow> True | Some x \<Rightarrow> x = [])"

definition Sync_init :: "env \<Rightarrow> bool option \<Rightarrow> string M" where
  "Sync_init env isForceSync =
     bindM (checkConnection env) (\<lambda>_.
     bindM (if isForceSync = Some True
            then bindM (void env DevicesUnregister) (\<lambda>_. void env DevicesRegister)
            else returnM ()) (\<lambda>_.
     bindM (call DevicesGet (on_devices_get env)) (\<lambda>d1.
     bindM (if falsy_deviceId d1
            then bindM (void env DevicesRegister) (\<lambda>_. call DevicesGet (on_devices_get env))
            else returnM d1) (\<lambda>d2.
       case d2 of
         None \<Rightarrow> throwM (Error ''Sync device not registered.'')
       | Some deviceId \<Rightarrow>
           if deviceId = [] then throwM (Error ''Sync device not registered.'')
           else returnM deviceId))))"

text \<open>\<^verbatim>\<open>Sync.stop\<close> (lines 280-287).\<close>

definition Sync_stop :: "env \<Rightarrow> unit M" where
  "Sync_stop env =
     bindM (void env MonographsRefresh) (\<lambda>_.
     bindM (void env (StorageWrite ''lastSynced'')) (\<lambda>_.
     emit (Publish syncCompleted)))"

text \<open>\<^verbatim>\<open>Sync.start\<close> (lines 149-184).\<close>

definition Sync_start :: "env \<Rightarrow> syncOptions \<Rightarrow> unit M" where
  "Sync_start env options =
     bindM (call (CheckSyncStatus SYNC_CHECK_sync) (on_checkSyncStatus env)) (\<lambda>enabled.
       if \<not> enabled then void env ConnectionStop
       else
         bindM (call GetUser (on_getUser env)) (\<lambda>u.
           if u = None then returnM ()
           else
             bindM (emit ConnectionOnclose) (\<lambda>_.
             bindM (Sync_init env (force options)) (\<lambda>deviceId.
             bindM (if opt_type options = Fetch \<or> opt_type options = Full
                    then Sync_fetch env deviceId else returnM ()) (\<lambda>_.
             bindM (if opt_type options = Send \<or> opt_type options = Full
                    then Sync_send env deviceId (force options) else returnM False) (\<lambda>_.
             bindM (Sync_stop env) (\<lambda>_.
             bindM (call (CheckSyncStatus SYNC_CHECK_autoSync) (on_checkSyncStatus env)) (\<lambda>auto.
               if \<not> auto then void env ConnectionStop else returnM ()))))))))"

text \<open>The text \<^verbatim>\<open>errorText\<close> of lines 63-67, and the test on it of lines 74-75.\<close>

definition errorText_of :: "string \<Rightarrow> string" where
  "errorText_of m = (case exec_HubException m of Some g \<Rightarrow> g | None \<Rightarrow> m)"

definition recoverable_text :: "string \<Rightarrow> bool" where
  "recoverable_text errorText =
     (str_includes errorText ''Please confirm your email ''
      \<or> str_includes errorText ''Invalid token.'')"

text \<open>\<^verbatim>\<open>(await this.db.user.getUser())?.isEmailConfirmed\<close>.\<close>

definition confirmed :: "user option \<Rightarrow> bool" where
  "confirmed u = (case u of None \<Rightarrow> False | Some usr \<Rightarrow> isEmailConfirmed usr)"

text \<open>The \<^verbatim>\<open>catch\<close> block of \<^verbatim>\<open>SyncManager.start\<close> (lines 60-85). Reading
  \<^verbatim>\<open>message.includes\<close> on a thrown value without a message raises a
  \<^verbatim>\<open>TypeError\<close>.\<close>

definition start_catch :: "env \<Rightarrow> thrown \<Rightarrow> bool M" where
  "start_catch env e =
     (case message e of
        None \<Rightarrow> throwM (TypeError ''Cannot read properties of undefined (reading includes)'')
      | Some m \<Rightarrow>
          if str_includes m ''HubException:'' then
            if recoverable_text (errorText_of m)
            then bindM (call GetUser (on_getUser env)) (\<lambda>u.
                   if confirmed u
                   then bindM (void env (RefreshToken True)) (\<lambda>_. returnM False)
                   else throwM (Error (errorText_of m)))
            else throwM (Error (errorText_of m))
          else throwM e)"

text \<open>The \<^verbatim>\<open>try\<close> block of \<^verbatim>\<open>SyncManager.start\<close> (lines 56-59).\<close>

definition start_try :: "env \<Rightarrow> syncOptions \<Rightarrow> bool M" where
  "start_try env options =
     bindM (void env AutoSyncStart) (\<lambda>_.
     bindM (Sync_start env options) (\<lambda>_.
     returnM True))"

text \<open>\<^verbatim>\<open>SyncManager.start\<close> (lines 55-86).\<close>

definition SyncManager_start :: "env \<Rightarrow> syncOptions \<Rightarrow> bool M" where
  "SyncManager_start env options = catchM (start_try env options) (start_catch env)"

section \<open>Kinds of effects\<close>

text \<open>The effects \<^verbatim>\<open>checkConnection\<close> can have.\<close>

definition checkConnection_effect :: "effect \<Rightarrow> bool" where
  "checkConnection_effect ev =
     (case ev of
        ConnectionStop \<Rightarrow> True
      | ConnectionStart \<Rightarrow> True
      | ConsoleError e \<Rightarrow> True
      | LoggerWarn m \<Rightarrow> True
      | _ \<Rightarrow> False)"

text \<open>The three calls of the push protocol.\<close>

definition push_effect :: "effect \<Rightarrow> bool" where
  "push_effect ev =
     (case ev of
        Send_InitializePush vk \<Rightarrow> True
      | Invoke_PushItems d b \<Rightarrow> True
      | Send_PushCompleted \<Rightarrow> True
      | _ \<Rightarrow> False)"

definition is_RequestFetch :: "effect \<Rightarrow> bool" where
  "is_RequestFetch ev = (case ev of Invoke_RequestFetch d \<Rightarrow> True | _ \<Rightarrow> False)"

text \<open>What a run added to the trace.\<close>

definition added :: "world \<Rightarrow> world \<Rightarrow> effect list" where
  "added w w' = drop (length (trace w)) (trace w')"

text \<open>
  A computation keeps to a kind of effects when, whatever it returns, it leaves the
  registered handlers alone and adds only effects of that kind to the trace.
\<close>

definition keeps_to :: "(effect \<Rightarrow> bool) \<Rightarrow> 'a M \<Rightarrow> bool" where
  "keeps_to P m =
     (\<forall>w r w'. m w = (r, w') \<longrightarrow>
        sendItems_handlers w' = sendItems_handlers w
        \<and> (\<exists>evs. trace w' = trace w @ evs \<and> list_all P evs))"

text \<open>A world in which the connection is up and no call made while sending fails.\<close>

definition send_unhindered :: "env \<Rightarrow> bool" where
  "send_unhindered env =
     ((\<forall>tr. connection_state env tr = Connected)
      \<and> (\<forall>tr. on_void env tr = None)
      \<and> (\<forall>tr. \<exists>a. on_pending_attachments env tr = Inr a)
      \<and> (\<forall>tr. \<exists>vk. on_vault_getKey env tr = Inr vk)
      \<and> (\<forall>tr. \<exists>j. on_PushItems env tr = Inr j)
      \<and> (\<forall>tr. snd (on_collect env tr) = None))"

section \<open>Example inputs\<close>

definition blank_item :: item where
  "blank_item = \<lparr>item_id = None, type = None, itemType = None, title = None, cipher = None,
                  remote = None, synced = None, rest = []\<rparr>"

definition locked_topic :: item where
  "locked_topic = blank_item\<lparr>type := Some (JStr ''topic''), cipher := Some (JStr ''c2VjcmV0'')\<rparr>"

definition tag_red :: item where
  "tag_red = blank_item\<lparr>type := Some (JStr ''tag''), title := Some (JStr ''Red'')\<rparr>"

definition trash_note :: item where
  "trash_note = blank_item\<lparr>type := Some (JStr ''trash''), itemType := Some (JStr ''note'')\<rparr>"

definition plain_note :: item where
  "plain_note = blank_item\<lparr>type := Some (JStr ''note''), title := Some (JStr ''Hello'')\<rparr>"

definition plain_topic :: item where
  "plain_topic = blank_item\<lparr>type := Some (JStr ''topic'')\<rparr>"

text \<open>A stand-in for \<^verbatim>\<open>JSON.parse\<close> on five payloads, named after what they hold.\<close>

definition ex_parse :: "string \<Rightarrow> thrown + item" where
  "ex_parse s =
     (if s = ''locked-topic'' then Inr locked_topic
      else if s = ''tag-red'' then Inr tag_red
      else if s = ''trash-note'' then Inr trash_note
      else if s = ''note'' then Inr plain_note
      else if s = ''topic'' then Inr plain_topic
      else Inl (Error ''Unexpected token''))"

definition ex_denv :: "(item \<Rightarrow> version \<Rightarrow> version \<Rightarrow> json option \<Rightarrow> migration_context
                    \<Rightarrow> thrown + (migration_result \<times> item)) \<Rightarrow> deserializer_env" where
  "ex_denv mig = \<lparr>JSON_parse = ex_parse, migrateItem = mig,
     COLORS = [''red'', ''orange'', ''yellow'', ''green'', ''blue'', ''purple'', ''gray''],
     CURRENT_DATABASE_VERSION = 6\<rparr>"

definition mig_unchanged ::
  "item \<Rightarrow> version \<Rightarrow> version \<Rightarrow> json option \<Rightarrow> migration_context
     \<Rightarrow> thrown + (migration_result \<times> item)" where
  "mig_unchanged it v c t ctx = Inr (Changed False, it)"

definition mig_outer_only ::
  "item \<Rightarrow> version \<Rightarrow> version \<Rightarrow> json option \<Rightarrow> migration_context
     \<Rightarrow> thrown + (migration_result \<times> item)" where
  "mig_outer_only it v c t ctx = Inr (Changed (ctx = Sync_ctx), it)"

definition mig_skip_all ::
  "item \<Rightarrow> version \<Rightarrow> version \<Rightarrow> json option \<Rightarrow> migration_context
     \<Rightarrow> thrown + (migration_result \<times> item)" where
  "mig_skip_all it v c t ctx = Inr (Skip, it)"

definition mig_skip_inner ::
  "item \<Rightarrow> version \<Rightarrow> version \<Rightarrow> json option \<Rightarrow> migration_context
     \<Rightarrow> thrown + (migration_result \<times> item)" where
  "mig_skip_inner it v c t ctx = Inr (if ctx = Backup_ctx then Skip else Changed False, it)"

definition ex_key :: serializedKey where
  "ex_key = \<lparr>sk_key = Some ''a2V5'', sk_salt = Some ''c2FsdA==''\<rparr>"

definition ex_collections :: "string \<Rightarrow> string option" where
  "ex_collections t =
     (if t = ''note'' then Some ''notes''
      else if t = ''content'' then Some ''content''
      else if t = ''tag'' then Some ''tags''
      else if t = ''attachment'' then Some ''attachments''
      else None)"

text \<open>A stand-in for decryption: the payload of a transfer item is its plaintext.\<close>

definition ex_decryptMulti :: "effect list \<Rightarrow> thrown + string list" where
  "ex_decryptMulti tr =
     (case rev tr of
        DecryptMulti k its # _ \<Rightarrow> Inr (map ti_payload its)
      | _ \<Rightarrow> Inr [])"

text \<open>
  A quiet world: the connection is up, every call succeeds, the server has nothing to
  deliver, the collector nothing to send, the store holds no local item and the merger
  takes the remote item. The examples below change one reply at a time.
\<close>

definition ex_env :: env where
  "ex_env =
     \<lparr>denv = ex_denv mig_unchanged,
      SYNC_COLLECTIONS_MAP = ex_collections,
      connection_state = (\<lambda>tr. Connected),
      on_void = (\<lambda>tr. None),
      on_start = (\<lambda>tr. Fulfilled),
      on_checkSyncStatus = (\<lambda>tr. Inr True),
      on_getUser = (\<lambda>tr. Inr (Some \<lparr>isEmailConfirmed = True\<rparr>)),
      on_getEncryptionKey = (\<lambda>tr. Inr (Some ex_key)),
      on_devices_get = (\<lambda>tr. Inr (Some ''device-1'')),
      on_RequestFetch_deliveries = (\<lambda>tr. []),
      on_RequestFetch = (\<lambda>tr. Inr \<lparr>sr_vaultKey = None\<rparr>),
      on_PushItems = (\<lambda>tr. Inr (JNum 1)),
      on_vault_getKey = (\<lambda>tr. Inr None),
      on_collect = (\<lambda>tr. ([], None)),
      on_pending_attachments = (\<lambda>tr. Inr []),
      on_decryptMulti = ex_decryptMulti,
      on_records = (\<lambda>tr. Inr (\<lambda>i. None)),
      mergeContent = (\<lambda>it l. Inr (Some it)),
      mergeItemAsync = (\<lambda>it l t. Inr (Some it)),
      mergeItemSync = (\<lambda>it l t. Inr (Some it))\<rparr>"

definition w0 :: world where
  "w0 = \<lparr>trace = [], sendItems_handlers = []\<rparr>"

definition ex_transfer :: "string \<Rightarrow> string \<Rightarrow> transfer_item" where
  "ex_transfer i p = \<lparr>ti_id = i, ti_v = 59 / 10, ti_payload = p\<rparr>"

definition chunk_trash_and_note :: syncTransferItem where
  "chunk_trash_and_note =
     \<lparr>st_type = ''note'',
      st_items = [ex_transfer ''1'' ''trash-note'', ex_transfer ''2'' ''note'']\<rparr>"

definition chunk_topic_and_note :: syncTransferItem where
  "chunk_topic_and_note =
     \<lparr>st_type = ''note'',
      st_items = [ex_transfer ''1'' ''topic'', ex_transfer ''2'' ''note'']\<rparr>"

definition chunk_locked_topic :: syncTransferItem where
  "chunk_locked_topic =
     \<lparr>st_type = ''note'', st_items = [ex_transfer ''1'' ''locked-topic'']\<rparr>"

definition chunk_settings :: syncTransferItem where
  "chunk_settings =
     \<lparr>st_type = ''settings'',
      st_items = [ex_transfer ''1'' ''note'', ex_transfer ''2'' ''note'']\<rparr>"

text \<open>An item as \<^verbatim>\<open>deserializeItem\<close> stamps it (lines 411-412).\<close>

definition stamped :: "item \<Rightarrow> item" where
  "stamped it = it\<lparr>remote := Some (JBool True), synced := Some (JBool True)\<rparr>"

text \<open>A server that delivers a batch of settings and a batch of notes.\<close>

definition env_two_deliveries :: env where
  "env_two_deliveries =
     ex_env\<lparr>on_RequestFetch_deliveries := (\<lambda>tr. [chunk_settings, chunk_topic_and_note])\<rparr>"

text \<open>A server that fails the fetch request, and an account without an encryption key.\<close>

definition env_fetch_fails :: env where
  "env_fetch_fails =
     ex_env\<lparr>on_RequestFetch := (\<lambda>tr. Inl (Error ''Server timeout elapsed without receiving a message from the server.''))\<rparr>"

definition env_no_key :: env where
  "env_no_key = ex_env\<lparr>on_getEncryptionKey := (\<lambda>tr. Inr None)\<rparr>"

text \<open>A collector that yields two batches; the server acknowledges the first only.\<close>

definition batch_a :: syncTransferItem where
  "batch_a = \<lparr>st_type = ''note'', st_items = [ex_transfer ''1'' ''x'', ex_transfer ''2'' ''y'']\<rparr>"

definition batch_b :: syncTransferItem where
  "batch_b = \<lparr>st_type = ''tag'', st_items = [ex_transfer ''3'' ''z'']\<rparr>"

definition env_two_batches :: env where
  "env_two_batches =
     ex_env\<lparr>on_collect := (\<lambda>tr. ([batch_a, batch_b], None)),
            on_PushItems := (\<lambda>tr. if length tr \<le> 6 then Inr (JNum 1) else Inr (JNum 0))\<rparr>"

text \<open>Servers that reject the fetch request with a hub exception, and a transport
  failure that is not one.\<close>

definition msg_confirm_email :: string where
  "msg_confirm_email =
     ''An unexpected error occurred invoking RequestFetch on the server. HubException: Please confirm your email to sync.''"

definition msg_invalid_token :: string where
  "msg_invalid_token =
     ''An unexpected error occurred invoking RequestFetch on the server. HubException: Invalid token.''"

definition msg_quota :: string where
  "msg_quota =
     ''An unexpected error occurred invoking RequestFetch on the server. HubException: Quota exceeded.''"

definition env_confirm_email :: env where
  "env_confirm_email = ex_env\<lparr>on_RequestFetch := (\<lambda>tr. Inl (Error msg_confirm_email))\<rparr>"

definition env_invalid_token :: env where
  "env_invalid_token = ex_env\<lparr>on_RequestFetch := (\<lambda>tr. Inl (Error msg_invalid_token))\<rparr>"

definition env_quota :: env where
  "env_quota = ex_env\<lparr>on_RequestFetch := (\<lambda>tr. Inl (Error msg_quota))\<rparr>"

text \<open>The world of a fetch-only run at the moment the fetch request has failed.\<close>

definition w_request_failed :: world where
  "w_request_failed =
     \<lparr>trace = [AutoSyncStart, CheckSyncStatus SYNC_CHECK_sync, GetUser, ConnectionOnclose,
               DevicesGet, GetEncryptionKey, ConnectionOff ''SendItems'',
               ConnectionOn ''SendItems'', Invoke_RequestFetch ''device-1''],
      sendItems_handlers = [ex_key]\<rparr>"

definition fetch_only :: syncOptions where
  "fetch_only = \<lparr>opt_type = Fetch, force = None\<rparr>"

text \<open>A connection that cannot be started, a key store that raises, and the worlds the
  fetch runs of the examples end in.\<close>

definition env_connection_refused :: env where
  "env_connection_refused =
     ex_env\<lparr>connection_state := (\<lambda>tr. Disconnected),
            on_start := (\<lambda>tr. Rejected (Error ''WebSocket failed to connect.''))\<rparr>"

definition env_key_raises :: env where
  "env_key_raises = ex_env\<lparr>on_getEncryptionKey := (\<lambda>tr. Inl (Error ''Could not read the key.''))\<rparr>"

definition w_fetched :: world where
  "w_fetched =
     \<lparr>trace = [GetEncryptionKey, ConnectionOff ''SendItems'', ConnectionOn ''SendItems'',
               Invoke_RequestFetch ''device-1'', ConnectionOff ''SendItems''],
      sendItems_handlers = []\<rparr>"

definition w_refused :: world where
  "w_refused =
     \<lparr>trace = [ConnectionStart, ConsoleError (Error ''WebSocket failed to connect.''),
               LoggerWarn ''WebSocket failed to connect.''],
      sendItems_handlers = []\<rparr>"

definition w_key_raised :: world where
  "w_key_raised = \<lparr>trace = [GetEncryptionKey], sendItems_handlers = []\<rparr>"

definition w_no_key :: world where
  "w_no_key =
     \<lparr>trace = [GetEncryptionKey,
               LoggerError ''User encryption key not generated. Please relogin.'',
               Publish userSessionExpired],
      sendItems_handlers = []\<rparr>"

section \<open>Deserialization: what is returned\<close>

lemma resolve_itemType_synced [simp]:
  "resolve_itemType cs (it\<lparr>synced := b\<rparr>) = resolve_itemType cs it"
  by (auto simp: resolve_itemType_def split: option.splits json.splits bool.splits sum.splits)

lemma deserialize_finish_Some:
  assumes "deserialize_finish de calls mr it = (cs, Inr (Some x))"
  shows "cs = calls \<and> x = (if mr = Changed True then it\<lparr>synced := Some (JBool False)\<rparr> else it) \<and>
         (\<exists>t. resolve_itemType (COLORS de) it = Inr t \<and> truthy t \<and> t \<noteq> Some (JStr ''topic'')
                \<and> t \<noteq> Some (JStr ''settings''))"
  using assms by (auto simp: deserialize_finish_def split: sum.splits if_splits)

lemma deserialize_finish_calls: "fst (deserialize_finish de calls mr it) = calls"
  by (simp add: deserialize_finish_def split: sum.splits)

text \<open>What a plaintext item went through when deserializeItem returns it.\<close>

lemma deserializeItem_plain_Some:
  assumes parse: "JSON_parse de s = Inr parsed" and plain: "\<not> truthy (cipher parsed)"
      and res: "deserializeItem de s ver = (cs, Inr (Some x))"
  shows "\<exists>r it_m.
           (migrateItem de (parsed\<lparr>remote := Some (JBool True), synced := Some (JBool True)\<rparr>) ver
               (CURRENT_DATABASE_VERSION de) (type parsed) Sync_ctx = Inr (Changed r, it_m)
            \<and> \<not> (type it_m = Some (JStr ''trash'') \<and> truthy (itemType it_m))
            \<or> (\<exists>r1 it1.
                 migrateItem de (parsed\<lparr>remote := Some (JBool True), synced := Some (JBool True)\<rparr>) ver
                   (CURRENT_DATABASE_VERSION de) (type parsed) Sync_ctx = Inr (Changed r1, it1)
                 \<and> type it1 = Some (JStr ''trash'') \<and> truthy (itemType it1)
                 \<and> migrateItem de it1 ver (CURRENT_DATABASE_VERSION de) (itemType it1) Backup_ctx
                     = Inr (Changed r, it_m)))
           \<and> x = (if r then it_m\<lparr>synced := Some (JBool False)\<rparr> else it_m)
           \<and> (\<exists>t. resolve_itemType (COLORS de) it_m = Inr t \<and> truthy t
                    \<and> t \<noteq> Some (JStr ''topic'') \<and> t \<noteq> Some (JStr ''settings''))"
proof -
  let ?it = "parsed\<lparr>remote := Some (JBool True), synced := Some (JBool True)\<rparr>"
  obtain mr1 it1 where m1:
    "migrateItem de ?it ver (CURRENT_DATABASE_VERSION de) (type parsed) Sync_ctx = Inr (mr1, it1)"
    using parse plain res
    by (cases "migrateItem de ?it ver (CURRENT_DATABASE_VERSION de) (type parsed) Sync_ctx")
       (auto simp: deserializeItem_def Let_def)
  obtain r1 where r1: "mr1 = Changed r1"
    using parse plain res m1 by (cases mr1) (auto simp: deserializeItem_def Let_def)
  show ?thesis
  proof (cases "type it1 = Some (JStr ''trash'') \<and> truthy (itemType it1)")
    case False
    then have "deserialize_finish de [(type parsed, Sync_ctx)] (Changed r1) it1 = (cs, Inr (Some x))"
      using parse plain res m1 r1 by (auto simp: deserializeItem_def Let_def)
    from deserialize_finish_Some[OF this] False m1 r1 show ?thesis
      by (intro exI[of _ r1] exI[of _ it1]) auto
  next
    case True
    obtain mr2 it2 where m2:
      "migrateItem de it1 ver (CURRENT_DATABASE_VERSION de) (itemType it1) Backup_ctx = Inr (mr2, it2)"
      using parse plain res m1 r1 True
      by (cases "migrateItem de it1 ver (CURRENT_DATABASE_VERSION de) (itemType it1) Backup_ctx")
         (auto simp: deserializeItem_def Let_def)
    obtain r2 where r2: "mr2 = Changed r2"
      using parse plain res m1 r1 True m2 by (cases mr2) (auto simp: deserializeItem_def Let_def)
    have "deserialize_finish de [(type parsed, Sync_ctx), (itemType it1, Backup_ctx)] (Changed r2) it2
            = (cs, Inr (Some x))"
      using parse plain res m1 r1 True m2 r2 by (auto simp: deserializeItem_def Let_def)
    from deserialize_finish_Some[OF this] True m1 r1 m2 r2 show ?thesis
      by (intro exI[of _ r2] exI[of _ it2]) auto
  qed
qed

lemma deserializeItem_Some:
  assumes res: "snd (deserializeItem de s ver) = Inr (Some x)"
  shows "truthy (cipher x) \<or>
         (\<exists>t. resolve_itemType (COLORS de) x = Inr t \<and> truthy t
                \<and> t \<noteq> Some (JStr ''topic'') \<and> t \<noteq> Some (JStr ''settings''))"
proof -
  obtain parsed where parse: "JSON_parse de s = Inr parsed"
    using res by (cases "JSON_parse de s") (auto simp: deserializeItem_def)
  obtain cs where res': "deserializeItem de s ver = (cs, Inr (Some x))"
    using res by (cases "deserializeItem de s ver") auto
  show ?thesis
  proof (cases "truthy (cipher parsed)")
    case True
    then show ?thesis using parse res' by (auto simp: deserializeItem_def)
  next
    case False
    from deserializeItem_plain_Some[OF parse False res'] show ?thesis by auto
  qed
qed

section \<open>Effects of a computation\<close>

lemma keeps_to_returnM [intro!, simp]: "keeps_to P (returnM x)"
  by (simp add: keeps_to_def returnM_def)

lemma keeps_to_throwM [intro!, simp]: "keeps_to P (throwM e)"
  by (simp add: keeps_to_def throwM_def)

lemma keeps_to_liftM [intro!, simp]: "keeps_to P (liftM r)"
  by (simp add: keeps_to_def liftM_def)

lemma keeps_to_get_state [intro!, simp]: "keeps_to P (get_state env)"
  by (simp add: keeps_to_def get_state_def)

lemma keeps_to_call [intro]: "P ev \<Longrightarrow> keeps_to P (call ev reply)"
  by (simp add: keeps_to_def call_def)

lemma keeps_to_void [intro]: "P ev \<Longrightarrow> keeps_to P (void env ev)"
  by (simp add: void_def keeps_to_call)

lemma keeps_to_emit [intro]: "P ev \<Longrightarrow> keeps_to P (emit ev)"
  by (simp add: keeps_to_def emit_def)

lemma keeps_to_bindM [intro!]:
  assumes "keeps_to P m" and "\<And>x. keeps_to P (f x)"
  shows "keeps_to P (bindM m f)"
  unfolding keeps_to_def
proof (intro allI impI)
  fix w r w' assume run: "bindM m f w = (r, w')"
  obtain r1 w1 where m: "m w = (r1, w1)" by (cases "m w")
  from assms(1) m obtain evs1 where h1: "sendItems_handlers w1 = sendItems_handlers w"
      "trace w1 = trace w @ evs1" "list_all P evs1"
    unfolding keeps_to_def by blast
  show "sendItems_handlers w' = sendItems_handlers w \<and> (\<exists>evs. trace w' = trace w @ evs \<and> list_all P evs)"
  proof (cases r1)
    case (Inl e)
    with run m have "w' = w1" by (simp add: bindM_def)
    with h1 show ?thesis by auto
  next
    case (Inr x)
    with run m have "f x w1 = (r, w')" by (simp add: bindM_def)
    with assms(2) obtain evs2 where "sendItems_handlers w' = sendItems_handlers w1"
      "trace w' = trace w1 @ evs2" "list_all P evs2"
      unfolding keeps_to_def by blast
    with h1 show ?thesis by auto
  qed
qed

lemma keeps_to_catchM [intro!]:
  assumes "keeps_to P m" and "\<And>e. keeps_to P (h e)"
  shows "keeps_to P (catchM m h)"
  unfolding keeps_to_def
proof (intro allI impI)
  fix w r w' assume run: "catchM m h w = (r, w')"
  obtain r1 w1 where m: "m w = (r1, w1)" by (cases "m w")
  from assms(1) m obtain evs1 where h1: "sendItems_handlers w1 = sendItems_handlers w"
      "trace w1 = trace w @ evs1" "list_all P evs1"
    unfolding keeps_to_def by blast
  show "sendItems_handlers w' = sendItems_handlers w \<and> (\<exists>evs. trace w' = trace w @ evs \<and> list_all P evs)"
  proof (cases r1)
    case (Inr x)
    with run m have "w' = w1" by (simp add: catchM_def)
    with h1 show ?thesis by auto
  next
    case (Inl e)
    with run m have "h e w1 = (r, w')" by (simp add: catchM_def)
    with assms(2) obtain evs2 where "sendItems_handlers w' = sendItems_handlers w1"
      "trace w' = trace w1 @ evs2" "list_all P evs2"
      unfolding keeps_to_def by blast
    with h1 show ?thesis by auto
  qed
qed

lemma keeps_to_mono: "keeps_to P m \<Longrightarrow> (\<And>ev. P ev \<Longrightarrow> Q ev) \<Longrightarrow> keeps_to Q m"
  unfolding keeps_to_def by (meson list.pred_mono_strong)

lemma keeps_to_emits: "list_all P evs \<Longrightarrow> keeps_to P (emits evs)"
  by (induction evs) auto

lemma keeps_to_promiseTimeout: "keeps_to P p \<Longrightarrow> keeps_to P (promiseTimeout ms p)"
  by (auto simp: promiseTimeout_def split: settle.splits)

lemma keeps_to_checkConnection: "keeps_to checkConnection_effect (checkConnection env)"
  unfolding checkConnection_def
  by (intro keeps_to_catchM keeps_to_bindM keeps_to_get_state)
     (auto simp: checkConnection_effect_def connection_start_def
           intro!: keeps_to_promiseTimeout keeps_to_void keeps_to_call keeps_to_emit
           split: thrown.splits)

section \<open>Chunks: what reaches the store\<close>

lemma emits_run: "emits evs w = (Inr (), w\<lparr>trace := trace w @ evs\<rparr>)"
  by (induction evs arbitrary: w) (simp_all add: returnM_def bindM_def emit_def)

lemma Promise_all_Inr: "Promise_all rs = Inr ys \<Longrightarrow> rs = map Inr ys"
  by (induction rs arbitrary: ys rule: Promise_all.induct) (auto split: sum.splits)

lemma filter_Boolean_set: "x \<in> set (filter_Boolean ys) \<longleftrightarrow> Some x \<in> set ys"
  by (induction ys rule: filter_Boolean.induct) auto

lemma deserialize_chunk_set:
  assumes "deserialize_chunk de ds its = Inr xs" and "x \<in> set xs"
  shows "\<exists>d t. (d, t) \<in> set (zip ds its) \<and> snd (deserializeItem de d (ti_v t)) = Inr (Some x)"
proof -
  obtain rs where rs: "Promise_all (map (\<lambda>(d, t). snd (deserializeItem de d (ti_v t))) (zip ds its)) = Inr rs"
    and xs: "xs = filter_Boolean rs"
    using assms(1) by (auto simp: deserialize_chunk_def split: if_splits sum.splits)
  from Promise_all_Inr[OF rs] have m: "map (\<lambda>(d, t). snd (deserializeItem de d (ti_v t))) (zip ds its) = map Inr rs" .
  from assms(2) xs have "Some x \<in> set rs" by (simp add: filter_Boolean_set)
  then have "Inr (Some x) \<in> set (map (\<lambda>(d, t). snd (deserializeItem de d (ti_v t))) (zip ds its))"
    unfolding m by auto
  then obtain a b where "(a, b) \<in> set (zip ds its)"
      and "snd (deserializeItem de a (ti_v b)) = Inr (Some x)"
    by auto
  then show ?thesis by (intro exI[of _ a] exI[of _ b]) simp
qed

lemma Promise_all_append:
  "Promise_all (as @ bs) =
     (case Promise_all as of
        Inl e \<Rightarrow> Inl e
      | Inr xs \<Rightarrow> (case Promise_all bs of Inl e \<Rightarrow> Inl e | Inr ys \<Rightarrow> Inr (xs @ ys)))"
  by (induction as rule: Promise_all.induct) (auto split: sum.splits)

lemma filter_Boolean_append:
  "filter_Boolean (xs @ ys) = filter_Boolean xs @ filter_Boolean ys"
  by (induction xs rule: filter_Boolean.induct) auto

lemma Promise_all_drop_None:
  "(case Promise_all (as @ Inr None # bs) of Inl e \<Rightarrow> Inl e | Inr rs \<Rightarrow> Inr (filter_Boolean rs))
     = (case Promise_all (as @ bs) of Inl e \<Rightarrow> Inl e | Inr rs \<Rightarrow> Inr (filter_Boolean rs))"
  by (auto simp: Promise_all_append filter_Boolean_append split: sum.splits)

lemma deserialize_chunk_exclusion:
  assumes "snd (deserializeItem de d (ti_v t)) = Inr None" and "length ds1 = length ts1"
  shows "deserialize_chunk de (ds1 @ d # ds2) (ts1 @ t # ts2) = deserialize_chunk de (ds1 @ ds2) (ts1 @ ts2)"
  using assms Promise_all_drop_None[of "map (\<lambda>(d, t). snd (deserializeItem de d (ti_v t))) (zip ds1 ts1)" "map (\<lambda>(d, t). snd (deserializeItem de d (ti_v t))) (zip ds2 ts2)"]
  by (simp add: deserialize_chunk_def)

lemma processChunk_settings:
  "st_type chunk = ''settings'' \<Longrightarrow> processChunk env chunk k w = (Inr (), w)"
  by (simp add: processChunk_def returnM_def)

lemma processChunk_Put:
  assumes "processChunk env chunk k w = (r, w')"
      and "Put c merged \<in> set (drop (length (trace w)) (trace w'))"
  shows "\<exists>ds xs li. on_decryptMulti env (trace w @ [DecryptMulti k (st_items chunk)]) = Inr ds
           \<and> deserialize_chunk (denv env) ds (st_items chunk) = Inr xs
           \<and> merge_chunk env (st_type chunk) li xs = Inr merged"
  using assms
  by (auto simp: processChunk_def returnM_def bindM_def call_def void_def liftM_def throwM_def emits_run
           split: if_splits sum.splits option.splits prod.splits)

section \<open>Cipher-marked items\<close>

text \<open>
  Claim C9. In \<^verbatim>\<open>deserializeItem\<close> an incoming item with a truthy \<^verbatim>\<open>cipher\<close>
  field bypasses migration and every type-based filter: no \<^verbatim>\<open>migrateItem\<close> call is
  made and the item is returned with \<^verbatim>\<open>remote = true\<close> and \<^verbatim>\<open>synced = true\<close>,
  whatever its declared type, its title and the list of colors are.
\<close>

theorem cipher_item_bypasses:
  assumes "JSON_parse de s = Inr parsed" and "truthy (cipher parsed)"
  shows "deserializeItem de s ver =
           ([], Inr (Some (parsed\<lparr>remote := Some (JBool True), synced := Some (JBool True)\<rparr>)))"
  using assms by (simp add: deserializeItem_def)

theorem cipher_item_bypasses_witness:
  "JSON_parse (ex_denv mig_skip_inner) ''locked-topic'' = Inr locked_topic
   \<and> truthy (cipher locked_topic)
   \<and> type locked_topic = Some (JStr ''topic'')
   \<and> deserializeItem (ex_denv mig_skip_inner) ''locked-topic'' (59 / 10) =
       ([], Inr (Some (locked_topic\<lparr>remote := Some (JBool True), synced := Some (JBool True)\<rparr>)))"
proof -
  have p: "JSON_parse (ex_denv mig_skip_inner) ''locked-topic'' = Inr locked_topic"
    by (simp add: ex_denv_def ex_parse_def)
  have c: "truthy (cipher locked_topic)"
    by (simp add: locked_topic_def blank_item_def)
  have t: "type locked_topic = Some (JStr ''topic'')"
    by (simp add: locked_topic_def blank_item_def)
  show ?thesis
    using cipher_item_bypasses [OF p c, of "59 / 10"] p c t by simp
qed

section \<open>Migration results\<close>

text \<open>
  Claim C2. For a plaintext item (no truthy \<^verbatim>\<open>cipher\<close>), stamped with
  \<^verbatim>\<open>remote\<close> and \<^verbatim>\<open>synced\<close>: if the first migration pass (on the declared type,
  context "sync") returns "skip", \<^verbatim>\<open>deserializeItem\<close> returns nothing after that one
  call; if the item the first pass leaves is of type "trash" with a truthy inner type,
  both passes are called, the wrapper first and then the inner type with context
  "backup", and a "skip" of the second pass makes \<^verbatim>\<open>deserializeItem\<close> return nothing.
  An item for which nothing is returned is excluded from the batch: the deserialized list
  of the chunk is the one of the chunk without it, and whatever \<^verbatim>\<open>processChunk\<close>
  hands to \<^verbatim>\<open>put\<close> is the merge of that list.
\<close>

theorem skip_discards_item:
  assumes parse: "JSON_parse de s = Inr parsed" and plain: "\<not> truthy (cipher parsed)"
      and stamped: "it = parsed\<lparr>remote := Some (JBool True), synced := Some (JBool True)\<rparr>"
  shows "(\<forall>it1. migrateItem de it ver (CURRENT_DATABASE_VERSION de) (type it) Sync_ctx = Inr (Skip, it1)
            \<longrightarrow> deserializeItem de s ver = ([(type it, Sync_ctx)], Inr None))
       \<and> (\<forall>r1 it1. migrateItem de it ver (CURRENT_DATABASE_VERSION de) (type it) Sync_ctx
                      = Inr (Changed r1, it1)
                    \<and> type it1 = Some (JStr ''trash'') \<and> truthy (itemType it1)
            \<longrightarrow> fst (deserializeItem de s ver) = [(type it, Sync_ctx), (itemType it1, Backup_ctx)]
              \<and> (\<forall>it2. migrateItem de it1 ver (CURRENT_DATABASE_VERSION de) (itemType it1) Backup_ctx
                          = Inr (Skip, it2)
                    \<longrightarrow> snd (deserializeItem de s ver) = Inr None))
       \<and> (\<forall>env chunk k w r w' c merged ds1 ds2 ts1 ts2 t.
             denv env = de \<and> snd (deserializeItem de s ver) = Inr None
             \<and> st_items chunk = ts1 @ t # ts2 \<and> length ds1 = length ts1 \<and> ti_v t = ver
             \<and> on_decryptMulti env (trace w @ [DecryptMulti k (st_items chunk)]) = Inr (ds1 @ s # ds2)
             \<and> processChunk env chunk k w = (r, w')
             \<and> Put c merged \<in> set (drop (length (trace w)) (trace w'))
            \<longrightarrow> (\<exists>xs li. deserialize_chunk de (ds1 @ ds2) (ts1 @ ts2) = Inr xs
                    \<and> merge_chunk env (st_type chunk) li xs = Inr merged))"
proof (intro conjI)
  show "\<forall>it1. migrateItem de it ver (CURRENT_DATABASE_VERSION de) (type it) Sync_ctx = Inr (Skip, it1)
            \<longrightarrow> deserializeItem de s ver = ([(type it, Sync_ctx)], Inr None)"
    using parse plain stamped by (auto simp: deserializeItem_def Let_def)
next
  show "\<forall>r1 it1. migrateItem de it ver (CURRENT_DATABASE_VERSION de) (type it) Sync_ctx
                      = Inr (Changed r1, it1)
                    \<and> type it1 = Some (JStr ''trash'') \<and> truthy (itemType it1)
            \<longrightarrow> fst (deserializeItem de s ver) = [(type it, Sync_ctx), (itemType it1, Backup_ctx)]
              \<and> (\<forall>it2. migrateItem de it1 ver (CURRENT_DATABASE_VERSION de) (itemType it1) Backup_ctx
                          = Inr (Skip, it2)
                    \<longrightarrow> snd (deserializeItem de s ver) = Inr None)"
    using parse plain stamped
    by (auto simp: deserializeItem_def Let_def deserialize_finish_calls
             split: sum.splits migration_result.splits)
next
  show "\<forall>env chunk k w r w' c merged ds1 ds2 ts1 ts2 t.
             denv env = de \<and> snd (deserializeItem de s ver) = Inr None
             \<and> st_items chunk = ts1 @ t # ts2 \<and> length ds1 = length ts1 \<and> ti_v t = ver
             \<and> on_decryptMulti env (trace w @ [DecryptMulti k (st_items chunk)]) = Inr (ds1 @ s # ds2)
             \<and> processChunk env chunk k w = (r, w')
             \<and> Put c merged \<in> set (drop (length (trace w)) (trace w'))
            \<longrightarrow> (\<exists>xs li. deserialize_chunk de (ds1 @ ds2) (ts1 @ ts2) = Inr xs
                    \<and> merge_chunk env (st_type chunk) li xs = Inr merged)"
  proof (intro allI impI, elim conjE)
    fix env chunk k w r w' c merged ds1 ds2 ts1 ts2 t
    assume h: "denv env = de" "snd (deserializeItem de s ver) = Inr None"
      "st_items chunk = ts1 @ t # ts2" "length ds1 = length ts1" "ti_v t = ver"
      "on_decryptMulti env (trace w @ [DecryptMulti k (st_items chunk)]) = Inr (ds1 @ s # ds2)"
      "processChunk env chunk k w = (r, w')"
      "Put c merged \<in> set (drop (length (trace w)) (trace w'))"
    from processChunk_Put[OF h(7) h(8)] h(6) h(1) h(3)
    obtain xs li where xs: "deserialize_chunk de (ds1 @ s # ds2) (ts1 @ t # ts2) = Inr xs"
        and m: "merge_chunk env (st_type chunk) li xs = Inr merged"
      by auto
    from h(2) h(5) have "snd (deserializeItem de s (ti_v t)) = Inr None" by simp
    from deserialize_chunk_exclusion[OF this h(4)] xs
    have "deserialize_chunk de (ds1 @ ds2) (ts1 @ ts2) = Inr xs" by simp
    with m show "\<exists>xs li. deserialize_chunk de (ds1 @ ds2) (ts1 @ ts2) = Inr xs
                    \<and> merge_chunk env (st_type chunk) li xs = Inr merged"
      by blast
  qed
qed

theorem skip_discards_item_witness:
  "JSON_parse (ex_denv mig_skip_all) ''note'' = Inr plain_note
   \<and> \<not> truthy (cipher plain_note)
   \<and> deserializeItem (ex_denv mig_skip_all) ''note'' (59 / 10)
       = ([(Some (JStr ''note''), Sync_ctx)], Inr None)
   \<and> JSON_parse (ex_denv mig_skip_inner) ''trash-note'' = Inr trash_note
   \<and> \<not> truthy (cipher trash_note)
   \<and> fst (deserializeItem (ex_denv mig_skip_inner) ''trash-note'' (59 / 10))
       = [(Some (JStr ''trash''), Sync_ctx), (Some (JStr ''note''), Backup_ctx)]
   \<and> snd (deserializeItem (ex_denv mig_skip_inner) ''trash-note'' (59 / 10)) = Inr None
   \<and> (\<exists>xs li. deserialize_chunk (ex_denv mig_skip_inner) ([] @ [''note''])
                  ([] @ [ex_transfer ''2'' ''note'']) = Inr xs
         \<and> merge_chunk (ex_env\<lparr>denv := ex_denv mig_skip_inner\<rparr>) (st_type chunk_trash_and_note) li xs
             = Inr [Some (stamped plain_note)])"
proof -
  let ?A = "ex_denv mig_skip_all" and ?B = "ex_denv mig_skip_inner"
  let ?env = "ex_env\<lparr>denv := ex_denv mig_skip_inner\<rparr>"
  have pA: "JSON_parse ?A ''note'' = Inr plain_note" by code_simp
  have cA: "\<not> truthy (cipher plain_note)" by code_simp
  have mA: "migrateItem ?A (stamped plain_note) (59 / 10) (CURRENT_DATABASE_VERSION ?A)
              (type (stamped plain_note)) Sync_ctx = Inr (Skip, stamped plain_note)"
    by code_simp
  have tA: "type (stamped plain_note) = Some (JStr ''note'')" by code_simp
  have A: "deserializeItem ?A ''note'' (59 / 10) = ([(Some (JStr ''note''), Sync_ctx)], Inr None)"
    using skip_discards_item [OF pA cA stamped_def, of "59 / 10"] mA tA by metis
  have pB: "JSON_parse ?B ''trash-note'' = Inr trash_note" by code_simp
  have cB: "\<not> truthy (cipher trash_note)" by code_simp
  have mB1: "migrateItem ?B (stamped trash_note) (59 / 10) (CURRENT_DATABASE_VERSION ?B)
               (type (stamped trash_note)) Sync_ctx = Inr (Changed False, stamped trash_note)
             \<and> type (stamped trash_note) = Some (JStr ''trash'')
             \<and> truthy (itemType (stamped trash_note))"
    by code_simp
  have mB2: "migrateItem ?B (stamped trash_note) (59 / 10) (CURRENT_DATABASE_VERSION ?B)
               (itemType (stamped trash_note)) Backup_ctx = Inr (Skip, stamped trash_note)"
    by code_simp
  have iB: "itemType (stamped trash_note) = Some (JStr ''note'')" by code_simp
  note B = skip_discards_item [OF pB cB stamped_def, of "59 / 10"]
  have B1: "fst (deserializeItem ?B ''trash-note'' (59 / 10))
              = [(Some (JStr ''trash''), Sync_ctx), (Some (JStr ''note''), Backup_ctx)]"
    using B mB1 iB by metis
  have B2: "snd (deserializeItem ?B ''trash-note'' (59 / 10)) = Inr None"
    using B mB1 mB2 by metis
  have run1: "denv ?env = ?B" by simp
  have run2: "snd (deserializeItem ?B ''trash-note'' (59 / 10)) = Inr None
      \<and> st_items chunk_trash_and_note = [] @ ex_transfer ''1'' ''trash-note'' # [ex_transfer ''2'' ''note'']
      \<and> length ([]::string list) = length ([]::transfer_item list)
      \<and> ti_v (ex_transfer ''1'' ''trash-note'') = 59 / 10
      \<and> on_decryptMulti ?env (trace w0 @ [DecryptMulti ex_key (st_items chunk_trash_and_note)])
          = Inr ([] @ ''trash-note'' # [''note''])
      \<and> processChunk ?env chunk_trash_and_note ex_key w0
          = (Inr (), \<lparr>trace = [DecryptMulti ex_key (st_items chunk_trash_and_note),
                               Records ''notes'' [''1'', ''2''],
                               Publish (syncItemMerged (Some (stamped plain_note))),
                               Put ''notes'' [Some (stamped plain_note)]],
                      sendItems_handlers = []\<rparr>)
      \<and> Put ''notes'' [Some (stamped plain_note)]
          \<in> set (drop (length (trace w0))
                   (trace \<lparr>trace = [DecryptMulti ex_key (st_items chunk_trash_and_note),
                               Records ''notes'' [''1'', ''2''],
                               Publish (syncItemMerged (Some (stamped plain_note))),
                               Put ''notes'' [Some (stamped plain_note)]],
                      sendItems_handlers = []\<rparr>))"
    by code_simp
  have C: "\<exists>xs li. deserialize_chunk ?B ([] @ [''note'']) ([] @ [ex_transfer ''2'' ''note'']) = Inr xs
         \<and> merge_chunk ?env (st_type chunk_trash_and_note) li xs = Inr [Some (stamped plain_note)]"
    using B [THEN conjunct2, THEN conjunct2, rule_format, OF conjI [OF run1 run2]] .
  show ?thesis
    by (intro conjI pA cA A pB cB B1 B2 C)
qed

text \<open>
  Claim C6, at the input where the code departs from it: a trash-wrapped note whose
  wrapper migration reports a change and whose inner migration reports none. Both passes
  run, the second result overwrites the first, and the item is returned with
  \<^verbatim>\<open>synced = true\<close>.
\<close>

theorem outer_migration_change_lost:
  "migrateItem (ex_denv mig_outer_only) (stamped trash_note) (59 / 10) 6
       (Some (JStr ''trash'')) Sync_ctx = Inr (Changed True, stamped trash_note)
   \<and> deserializeItem (ex_denv mig_outer_only) ''trash-note'' (59 / 10)
       = ([(Some (JStr ''trash''), Sync_ctx), (Some (JStr ''note''), Backup_ctx)],
          Inr (Some (stamped trash_note)))
   \<and> synced (stamped trash_note) = Some (JBool True)"
  by code_simp

section \<open>The resolved type\<close>

lemma resolve_itemType_Inr:
  assumes "resolve_itemType colors it = Inr t"
  shows "t = (if type it = Some (JStr ''tag'')
                   \<and> (\<exists>s. title it = Some (JStr s) \<and> toLowerCase s \<in> set colors)
              then Some (JStr ''color'')
              else if type it = Some (JStr ''trash'') \<and> truthy (itemType it)
              then itemType it
              else type it)"
  using assms
  by (auto simp: resolve_itemType_def split: if_splits option.splits json.splits bool.splits)

text \<open>
  Claim C7 as stated fails: a tag whose title is a color name is returned with its type
  still "tag", although its resolved type is "color".
\<close>

theorem tag_color_keeps_type_counterexample:
  "deserializeItem (ex_denv mig_unchanged) ''tag-red'' (59 / 10)
       = ([(Some (JStr ''tag''), Sync_ctx)], Inr (Some (stamped tag_red)))
   \<and> resolve_itemType (COLORS (ex_denv mig_unchanged)) (stamped tag_red) = Inr (Some (JStr ''color''))
   \<and> type (stamped tag_red) = Some (JStr ''tag'')
   \<and> type (stamped tag_red) \<noteq> Some (JStr ''color'')"
  by code_simp

text \<open>
  Claim C7, amended. \<^verbatim>\<open>deserializeItem\<close> resolves a type for a plaintext item:
  "color" for a tag whose lower-cased title is one of the colors, the inner type for a
  trash item with a truthy inner type, the declared type otherwise. The resolved type only
  decides whether the item is dropped. The item that is returned is the item as the last
  migration pass left it, apart from \<^verbatim>\<open>synced\<close>: its \<^verbatim>\<open>type\<close> field is not
  reclassified.
\<close>

theorem reclassification_only_filters:
  assumes parse: "JSON_parse de s = Inr parsed" and plain: "\<not> truthy (cipher parsed)"
      and res: "deserializeItem de s ver = (cs, Inr (Some x))"
  shows "\<exists>r it_m.
           (migrateItem de (parsed\<lparr>remote := Some (JBool True), synced := Some (JBool True)\<rparr>) ver
               (CURRENT_DATABASE_VERSION de) (type parsed) Sync_ctx = Inr (Changed r, it_m)
            \<and> \<not> (type it_m = Some (JStr ''trash'') \<and> truthy (itemType it_m))
            \<or> (\<exists>r1 it1.
                 migrateItem de (parsed\<lparr>remote := Some (JBool True), synced := Some (JBool True)\<rparr>) ver
                   (CURRENT_DATABASE_VERSION de) (type parsed) Sync_ctx = Inr (Changed r1, it1)
                 \<and> type it1 = Some (JStr ''trash'') \<and> truthy (itemType it1)
                 \<and> migrateItem de it1 ver (CURRENT_DATABASE_VERSION de) (itemType it1) Backup_ctx
                     = Inr (Changed r, it_m)))
           \<and> x = (if r then it_m\<lparr>synced := Some (JBool False)\<rparr> else it_m)
           \<and> type x = type it_m
           \<and> (\<exists>t. resolve_itemType (COLORS de) it_m = Inr t
                \<and> t = (if type it_m = Some (JStr ''tag'')
                            \<and> (\<exists>n. title it_m = Some (JStr n) \<and> toLowerCase n \<in> set (COLORS de))
                        then Some (JStr ''color'')
                        else if type it_m = Some (JStr ''trash'') \<and> truthy (itemType it_m)
                        then itemType it_m
                        else type it_m)
                \<and> truthy t \<and> t \<noteq> Some (JStr ''topic'') \<and> t \<noteq> Some (JStr ''settings''))"
proof -
  from deserializeItem_plain_Some [OF parse plain res]
  obtain r it_m t where
    pass: "migrateItem de (parsed\<lparr>remote := Some (JBool True), synced := Some (JBool True)\<rparr>) ver
               (CURRENT_DATABASE_VERSION de) (type parsed) Sync_ctx = Inr (Changed r, it_m)
            \<and> \<not> (type it_m = Some (JStr ''trash'') \<and> truthy (itemType it_m))
            \<or> (\<exists>r1 it1.
                 migrateItem de (parsed\<lparr>remote := Some (JBool True), synced := Some (JBool True)\<rparr>) ver
                   (CURRENT_DATABASE_VERSION de) (type parsed) Sync_ctx = Inr (Changed r1, it1)
                 \<and> type it1 = Some (JStr ''trash'') \<and> truthy (itemType it1)
                 \<and> migrateItem de it1 ver (CURRENT_DATABASE_VERSION de) (itemType it1) Backup_ctx
                     = Inr (Changed r, it_m))"
    and x: "x = (if r then it_m\<lparr>synced := Some (JBool False)\<rparr> else it_m)"
    and t: "resolve_itemType (COLORS de) it_m = Inr t" "truthy t"
           "t \<noteq> Some (JStr ''topic'')" "t \<noteq> Some (JStr ''settings'')"
    by blast
  have tx: "type x = type it_m" using x by simp
  note rt = resolve_itemType_Inr [OF t(1)]
  show ?thesis
    using pass x tx t rt by (intro exI [of _ r] exI [of _ it_m] conjI exI [of _ t]) simp_all
qed

theorem reclassification_only_filters_witness:
  "JSON_parse (ex_denv mig_unchanged) ''tag-red'' = Inr tag_red
   \<and> \<not> truthy (cipher tag_red)
   \<and> deserializeItem (ex_denv mig_unchanged) ''tag-red'' (59 / 10)
       = ([(Some (JStr ''tag''), Sync_ctx)], Inr (Some (stamped tag_red)))
   \<and> (\<exists>r it_m.
         (migrateItem (ex_denv mig_unchanged)
             (tag_red\<lparr>remote := Some (JBool True), synced := Some (JBool True)\<rparr>) (59 / 10)
             (CURRENT_DATABASE_VERSION (ex_denv mig_unchanged)) (type tag_red) Sync_ctx
            = Inr (Changed r, it_m)
          \<and> \<not> (type it_m = Some (JStr ''trash'') \<and> truthy (itemType it_m))
          \<or> (\<exists>r1 it1.
               migrateItem (ex_denv mig_unchanged)
                   (tag_red\<lparr>remote := Some (JBool True), synced := Some (JBool True)\<rparr>) (59 / 10)
                   (CURRENT_DATABASE_VERSION (ex_denv mig_unchanged)) (type tag_red) Sync_ctx
                 = Inr (Changed r1, it1)
               \<and> type it1 = Some (JStr ''trash'') \<and> truthy (itemType it1)
               \<and> migrateItem (ex_denv mig_unchanged) it1 (59 / 10)
                   (CURRENT_DATABASE_VERSION (ex_denv mig_unchanged)) (itemType it1) Backup_ctx
                   = Inr (Changed r, it_m)))
         \<and> stamped tag_red = (if r then it_m\<lparr>synced := Some (JBool False)\<rparr> else it_m)
         \<and> type (stamped tag_red) = type it_m
         \<and> (\<exists>t. resolve_itemType (COLORS (ex_denv mig_unchanged)) it_m = Inr t
              \<and> t = (if type it_m = Some (JStr ''tag'')
                          \<and> (\<exists>n. title it_m = Some (JStr n)
                                 \<and> toLowerCase n \<in> set (COLORS (ex_denv mig_unchanged)))
                      then Some (JStr ''color'')
                      else if type it_m = Some (JStr ''trash'') \<and> truthy (itemType it_m)
                      then itemType it_m
                      else type it_m)
              \<and> truthy t \<and> t \<noteq> Some (JStr ''topic'') \<and> t \<noteq> Some (JStr ''settings'')))"
proof -
  have p: "JSON_parse (ex_denv mig_unchanged) ''tag-red'' = Inr tag_red" by code_simp
  have c: "\<not> truthy (cipher tag_red)" by code_simp
  have r: "deserializeItem (ex_denv mig_unchanged) ''tag-red'' (59 / 10)
             = ([(Some (JStr ''tag''), Sync_ctx)], Inr (Some (stamped tag_red)))"
    by code_simp
  show ?thesis
    by (intro conjI p c r reclassification_only_filters [OF p c r])
qed

section \<open>Types that are not persisted\<close>

text \<open>
  Claim C3 as stated fails for an item with a cipher marker: its type is never resolved,
  and an item of type "topic" in a batch of notes reaches \<^verbatim>\<open>put\<close>.
\<close>

theorem locked_topic_persisted_counterexample:
  "processChunk ex_env chunk_locked_topic ex_key w0
     = (Inr (), \<lparr>trace = [DecryptMulti ex_key [ex_transfer ''1'' ''locked-topic''],
                          Records ''notes'' [''1''],
                          Publish (syncItemMerged (Some (stamped locked_topic))),
                          Put ''notes'' [Some (stamped locked_topic)]],
                 sendItems_handlers = []\<rparr>)
   \<and> type (stamped locked_topic) = Some (JStr ''topic'')
   \<and> resolve_itemType (COLORS (denv ex_env)) (stamped locked_topic) = Inr (Some (JStr ''topic''))"
  by code_simp

text \<open>
  Claim C3, amended. A batch of type "settings" is skipped before anything is decrypted or
  persisted. For any other batch, every item of the deserialized list that
  \<^verbatim>\<open>processChunk\<close> merges and hands to \<^verbatim>\<open>put\<close> either carries a cipher marker or
  has a resolved type that is not empty, not "topic" and not "settings": a plaintext item
  whose resolved type is one of these is dropped by \<^verbatim>\<open>deserializeItem\<close>.
\<close>

theorem dropped_types_not_persisted:
  assumes run: "processChunk env chunk k w = (r, w')"
  shows "(st_type chunk = ''settings'' \<longrightarrow> r = Inr () \<and> w' = w)
       \<and> (\<forall>c merged. Put c merged \<in> set (drop (length (trace w)) (trace w')) \<longrightarrow>
            (\<exists>ds xs li. on_decryptMulti env (trace w @ [DecryptMulti k (st_items chunk)]) = Inr ds
               \<and> deserialize_chunk (denv env) ds (st_items chunk) = Inr xs
               \<and> merge_chunk env (st_type chunk) li xs = Inr merged
               \<and> (\<forall>x\<in>set xs. truthy (cipher x)
                     \<or> (\<exists>t. resolve_itemType (COLORS (denv env)) x = Inr t \<and> truthy t
                            \<and> t \<noteq> Some (JStr ''topic'') \<and> t \<noteq> Some (JStr ''settings'')))))
       \<and> (\<forall>calls mr it t. resolve_itemType (COLORS (denv env)) it = Inr t
              \<and> (\<not> truthy t \<or> t = Some (JStr ''topic'') \<or> t = Some (JStr ''settings''))
            \<longrightarrow> deserialize_finish (denv env) calls mr it = (calls, Inr None))"
proof (intro conjI allI impI)
  assume "st_type chunk = ''settings''"
  with run show "r = Inr ()" "w' = w" by (simp_all add: processChunk_settings)
next
  fix c merged
  assume put: "Put c merged \<in> set (drop (length (trace w)) (trace w'))"
  from processChunk_Put [OF run put]
  obtain ds xs li where
    d: "on_decryptMulti env (trace w @ [DecryptMulti k (st_items chunk)]) = Inr ds"
    and x: "deserialize_chunk (denv env) ds (st_items chunk) = Inr xs"
    and m: "merge_chunk env (st_type chunk) li xs = Inr merged"
    by blast
  have "\<forall>x\<in>set xs. truthy (cipher x)
          \<or> (\<exists>t. resolve_itemType (COLORS (denv env)) x = Inr t \<and> truthy t
                 \<and> t \<noteq> Some (JStr ''topic'') \<and> t \<noteq> Some (JStr ''settings''))"
  proof
    fix y assume "y \<in> set xs"
    from deserialize_chunk_set [OF x this]
    obtain d' and t' :: transfer_item
      where "snd (deserializeItem (denv env) d' (ti_v t')) = Inr (Some y)" by blast
    from deserializeItem_Some [OF this]
    show "truthy (cipher y)
          \<or> (\<exists>t. resolve_itemType (COLORS (denv env)) y = Inr t \<and> truthy t
                 \<and> t \<noteq> Some (JStr ''topic'') \<and> t \<noteq> Some (JStr ''settings''))" .
  qed
  with d x m
  show "\<exists>ds xs li. on_decryptMulti env (trace w @ [DecryptMulti k (st_items chunk)]) = Inr ds
               \<and> deserialize_chunk (denv env) ds (st_items chunk) = Inr xs
               \<and> merge_chunk env (st_type chunk) li xs = Inr merged
               \<and> (\<forall>x\<in>set xs. truthy (cipher x)
                     \<or> (\<exists>t. resolve_itemType (COLORS (denv env)) x = Inr t \<and> truthy t
                            \<and> t \<noteq> Some (JStr ''topic'') \<and> t \<noteq> Some (JStr ''settings'')))"
    by blast
next
  fix calls mr it t
  assume "resolve_itemType (COLORS (denv env)) it = Inr t
              \<and> (\<not> truthy t \<or> t = Some (JStr ''topic'') \<or> t = Some (JStr ''settings''))"
  then show "deserialize_finish (denv env) calls mr it = (calls, Inr None)"
    by (auto simp: deserialize_finish_def)
qed

theorem dropped_types_not_persisted_witness:
  "processChunk ex_env chunk_settings ex_key w0 = (Inr (), w0)
   \<and> st_type chunk_settings = ''settings''
   \<and> processChunk ex_env chunk_topic_and_note ex_key w0
       = (Inr (), \<lparr>trace = [DecryptMulti ex_key (st_items chunk_topic_and_note),
                            Records ''notes'' [''1'', ''2''],
                            Publish (syncItemMerged (Some (stamped plain_note))),
                            Put ''notes'' [Some (stamped plain_note)]],
                   sendItems_handlers = []\<rparr>)
   \<and> (\<exists>ds xs li.
         on_decryptMulti ex_env (trace w0 @ [DecryptMulti ex_key (st_items chunk_topic_and_note)])
           = Inr ds
         \<and> deserialize_chunk (denv ex_env) ds (st_items chunk_topic_and_note) = Inr xs
         \<and> merge_chunk ex_env (st_type chunk_topic_and_note) li xs = Inr [Some (stamped plain_note)]
         \<and> (\<forall>x\<in>set xs. truthy (cipher x)
               \<or> (\<exists>t. resolve_itemType (COLORS (denv ex_env)) x = Inr t \<and> truthy t
                      \<and> t \<noteq> Some (JStr ''topic'') \<and> t \<noteq> Some (JStr ''settings''))))
   \<and> deserialize_finish (denv ex_env) [(Some (JStr ''topic''), Sync_ctx)] (Changed False)
         (stamped plain_topic) = ([(Some (JStr ''topic''), Sync_ctx)], Inr None)"
proof -
  have s: "processChunk ex_env chunk_settings ex_key w0 = (Inr (), w0)" by code_simp
  have st: "st_type chunk_settings = ''settings''" by code_simp
  have n: "processChunk ex_env chunk_topic_and_note ex_key w0
       = (Inr (), \<lparr>trace = [DecryptMulti ex_key (st_items chunk_topic_and_note),
                            Records ''notes'' [''1'', ''2''],
                            Publish (syncItemMerged (Some (stamped plain_note))),
                            Put ''notes'' [Some (stamped plain_note)]],
                   sendItems_handlers = []\<rparr>)"
    by code_simp
  have put: "Put ''notes'' [Some (stamped plain_note)]
       \<in> set (drop (length (trace w0))
                (trace \<lparr>trace = [DecryptMulti ex_key (st_items chunk_topic_and_note),
                            Records ''notes'' [''1'', ''2''],
                            Publish (syncItemMerged (Some (stamped plain_note))),
                            Put ''notes'' [Some (stamped plain_note)]],
                   sendItems_handlers = []\<rparr>))"
    by code_simp
  have t: "resolve_itemType (COLORS (denv ex_env)) (stamped plain_topic) = Inr (Some (JStr ''topic''))
           \<and> (\<not> truthy (Some (JStr ''topic'')) \<or> Some (JStr ''topic'') = Some (JStr ''topic'')
               \<or> Some (JStr ''topic'') = Some (JStr ''settings''))"
    by code_simp
  note a = dropped_types_not_persisted [OF s, THEN conjunct1, rule_format, OF st]
  note b = dropped_types_not_persisted [OF n, THEN conjunct2, THEN conjunct1, rule_format, OF put]
  note c = dropped_types_not_persisted [OF n, THEN conjunct2, THEN conjunct2, rule_format, OF t]
  show ?thesis
    using a by (intro conjI s st n b c)
qed

section \<open>Connection timeout\<close>

lemma timeout_text: "''Sync timed out in '' @ string_of_nat 30000 @ ''ms.'' = ''Sync timed out in 30000ms.''"
  by (simp add: digit_char_def)

lemma checkConnection_connected:
  "connection_state env (trace w) = Connected \<Longrightarrow> checkConnection env w = (Inr (), w)"
  by (simp add: checkConnection_def catchM_def bindM_def get_state_def returnM_def)

lemma promiseTimeout_Unsettled:
  assumes "on_start env (trace w @ [ConnectionStart]) = Unsettled"
  shows "promiseTimeout 30000 (connection_start env) w
           = (Inl (Error ''Sync timed out in 30000ms.''), w\<lparr>trace := trace w @ [ConnectionStart]\<rparr>)"
  using assms timeout_text
  by (simp add: promiseTimeout_def connection_start_def bindM_def call_def throwM_def
           del: string_of_nat.simps)

text \<open>
  Claim C5 as stated fails: when the connect attempt is still pending after 30000 ms, the
  caller of \<^verbatim>\<open>checkConnection\<close> does not receive the error "Sync timed out in
  30000ms."; it receives "Could not connect to the Sync server. Please try again.".
\<close>

theorem timeout_message_counterexample:
  "checkConnection (ex_env\<lparr>connection_state := (\<lambda>tr. Disconnected), on_start := (\<lambda>tr. Unsettled)\<rparr>) w0
     = (Inl (Error ''Could not connect to the Sync server. Please try again.''),
        \<lparr>trace = [ConnectionStart, ConsoleError (Error ''Sync timed out in 30000ms.''),
                  LoggerWarn ''Sync timed out in 30000ms.''],
         sendItems_handlers = []\<rparr>)
   \<and> Error ''Could not connect to the Sync server. Please try again.''
       \<noteq> Error ''Sync timed out in 30000ms.''"
  using timeout_text
  by (simp add: checkConnection_def catchM_def bindM_def get_state_def returnM_def throwM_def emit_def
        w0_def promiseTimeout_def connection_start_def call_def del: string_of_nat.simps)

text \<open>
  Claim C5, amended. When the connection is not connected and the promise of
  \<^verbatim>\<open>connection.start()\<close> is still pending when the 30000 ms timer fires,
  \<^verbatim>\<open>promiseTimeout\<close> rejects with "Sync timed out in 30000ms.";
  \<^verbatim>\<open>checkConnection\<close> has then called \<^verbatim>\<open>start\<close> exactly once (after one
  \<^verbatim>\<open>stop\<close> when the connection was not disconnected), does not retry, logs the timeout
  message as a warning and raises "Could not connect to the Sync server. Please try
  again." to its caller.
\<close>

theorem timeout_fails_without_retry:
  assumes down: "connection_state env (trace w) \<noteq> Connected"
      and pre: "pre = (if connection_state env (trace w) = Disconnected then [] else [ConnectionStop])"
      and stop: "connection_state env (trace w) \<noteq> Disconnected
                   \<Longrightarrow> on_void env (trace w @ [ConnectionStop]) = None"
      and late: "on_start env (trace w @ pre @ [ConnectionStart]) = Unsettled"
  shows "promiseTimeout 30000 (connection_start env) (w\<lparr>trace := trace w @ pre\<rparr>)
           = (Inl (Error ''Sync timed out in 30000ms.''),
              w\<lparr>trace := trace w @ pre @ [ConnectionStart]\<rparr>)
       \<and> checkConnection env w
           = (Inl (Error ''Could not connect to the Sync server. Please try again.''),
              w\<lparr>trace := trace w @ pre @ [ConnectionStart,
                            ConsoleError (Error ''Sync timed out in 30000ms.''),
                            LoggerWarn ''Sync timed out in 30000ms.'']\<rparr>)"
proof
  have "on_start env (trace (w\<lparr>trace := trace w @ pre\<rparr>) @ [ConnectionStart]) = Unsettled"
    using late by simp
  from promiseTimeout_Unsettled [OF this]
  show p: "promiseTimeout 30000 (connection_start env) (w\<lparr>trace := trace w @ pre\<rparr>)
           = (Inl (Error ''Sync timed out in 30000ms.''),
              w\<lparr>trace := trace w @ pre @ [ConnectionStart]\<rparr>)"
    by simp
  show "checkConnection env w
           = (Inl (Error ''Could not connect to the Sync server. Please try again.''),
              w\<lparr>trace := trace w @ pre @ [ConnectionStart,
                            ConsoleError (Error ''Sync timed out in 30000ms.''),
                            LoggerWarn ''Sync timed out in 30000ms.'']\<rparr>)"
  proof (cases "connection_state env (trace w) = Disconnected")
    case True
    with pre have e: "pre = []" by simp
    with p have "promiseTimeout 30000 (connection_start env) w
           = (Inl (Error ''Sync timed out in 30000ms.''), w\<lparr>trace := trace w @ [ConnectionStart]\<rparr>)"
      by simp
    with True e show ?thesis
      by (simp add: checkConnection_def catchM_def bindM_def get_state_def returnM_def throwM_def emit_def)
  next
    case False
    with pre have e: "pre = [ConnectionStop]" by simp
    from stop [OF False] have s: "void env ConnectionStop w = (Inr (), w\<lparr>trace := trace w @ [ConnectionStop]\<rparr>)"
      by (simp add: void_def call_def)
    from p e have "promiseTimeout 30000 (connection_start env) (w\<lparr>trace := trace w @ [ConnectionStop]\<rparr>)
           = (Inl (Error ''Sync timed out in 30000ms.''),
              w\<lparr>trace := trace w @ [ConnectionStop, ConnectionStart]\<rparr>)"
      by simp
    with False down e s show ?thesis
      by (simp add: checkConnection_def catchM_def bindM_def get_state_def returnM_def throwM_def emit_def)
  qed
qed

theorem timeout_fails_without_retry_witness:
  "connection_state (ex_env\<lparr>connection_state := (\<lambda>tr. Connecting), on_start := (\<lambda>tr. Unsettled)\<rparr>) (trace w0)
      \<noteq> Connected
   \<and> on_start (ex_env\<lparr>connection_state := (\<lambda>tr. Connecting), on_start := (\<lambda>tr. Unsettled)\<rparr>)
        (trace w0 @ [ConnectionStop] @ [ConnectionStart]) = Unsettled
   \<and> checkConnection (ex_env\<lparr>connection_state := (\<lambda>tr. Connecting), on_start := (\<lambda>tr. Unsettled)\<rparr>) w0
       = (Inl (Error ''Could not connect to the Sync server. Please try again.''),
          w0\<lparr>trace := trace w0 @ [ConnectionStop] @ [ConnectionStart,
                            ConsoleError (Error ''Sync timed out in 30000ms.''),
                            LoggerWarn ''Sync timed out in 30000ms.'']\<rparr>)"
proof -
  let ?env = "ex_env\<lparr>connection_state := (\<lambda>tr. Connecting), on_start := (\<lambda>tr. Unsettled)\<rparr>"
  have d: "connection_state ?env (trace w0) \<noteq> Connected" by simp
  have p: "[ConnectionStop] = (if connection_state ?env (trace w0) = Disconnected then [] else [ConnectionStop])"
    by simp
  have s: "connection_state ?env (trace w0) \<noteq> Disconnected \<Longrightarrow> on_void ?env (trace w0 @ [ConnectionStop]) = None"
    by (simp add: ex_env_def)
  have l: "on_start ?env (trace w0 @ [ConnectionStop] @ [ConnectionStart]) = Unsettled" by simp
  show ?thesis
    by (intro conjI d l timeout_fails_without_retry [OF d p s l, THEN conjunct2])
qed

section \<open>Fetching: the handler and the request\<close>

lemma added_append: "trace w' = trace w @ evs \<Longrightarrow> added w w' = evs"
  by (simp add: added_def)

lemma keeps_to_processChunk:
  "keeps_to (\<lambda>ev. \<not> is_RequestFetch ev) (processChunk env chunk k)"
  unfolding processChunk_def
  by (auto simp: is_RequestFetch_def list_all_iff
           intro!: keeps_to_call keeps_to_void keeps_to_emits split: option.splits)

lemma keeps_to_if:
  "keeps_to P a \<Longrightarrow> keeps_to P b \<Longrightarrow> keeps_to P (if c then a else b)"
  by simp

lemma keeps_to_SendItems_handler:
  "keeps_to (\<lambda>ev. \<not> is_RequestFetch ev) (SendItems_handler env k n chunk)"
  unfolding SendItems_handler_def
  by (intro keeps_to_bindM keeps_to_if keeps_to_get_state keeps_to_returnM keeps_to_emit
            keeps_to_processChunk)
     (simp add: is_RequestFetch_def)

lemma keeps_to_deliver:
  "keeps_to (\<lambda>ev. \<not> is_RequestFetch ev) (deliver env k n chunks)"
proof (induction chunks arbitrary: n)
  case Nil
  show ?case by simp
next
  case (Cons c cs)
  show ?case
    unfolding keeps_to_def
  proof (intro allI impI)
    fix w r w'
    assume run: "deliver env k n (c # cs) w = (r, w')"
    obtain rh wh where h: "SendItems_handler env k n c w = (rh, wh)"
      by (cases "SendItems_handler env k n c w")
    from keeps_to_SendItems_handler h obtain e1 where h1:
      "sendItems_handlers wh = sendItems_handlers w" "trace wh = trace w @ e1"
      "list_all (\<lambda>ev. \<not> is_RequestFetch ev) e1"
      unfolding keeps_to_def by blast
    show "sendItems_handlers w' = sendItems_handlers w
          \<and> (\<exists>evs. trace w' = trace w @ evs \<and> list_all (\<lambda>ev. \<not> is_RequestFetch ev) evs)"
    proof (cases rh)
      case (Inl e)
      with run h have "deliver env k n cs (wh\<lparr>trace := trace wh @ [HandlerThrew e]\<rparr>) = (r, w')"
        by simp
      with Cons.IH [of n] obtain e2 where
        "sendItems_handlers w' = sendItems_handlers wh"
        "trace w' = (trace wh @ [HandlerThrew e]) @ e2" "list_all (\<lambda>ev. \<not> is_RequestFetch ev) e2"
        unfolding keeps_to_def by fastforce
      with h1 show ?thesis by (auto simp: is_RequestFetch_def)
    next
      case (Inr p)
      obtain b n' where p: "p = (b, n')" by (cases p)
      with Inr run h have "deliver env k n' cs wh = (r, w')" by simp
      with Cons.IH [of n'] obtain e2 where
        "sendItems_handlers w' = sendItems_handlers wh"
        "trace w' = trace wh @ e2" "list_all (\<lambda>ev. \<not> is_RequestFetch ev) e2"
        unfolding keeps_to_def by blast
      with h1 show ?thesis by auto
    qed
  qed
qed

lemma deliver_returns: "\<exists>m. fst (deliver env k n chunks w) = Inr m"
  by (induction chunks arbitrary: n w) (auto simp: returnM_def split: prod.splits sum.splits)

lemma merge_chunk_length: "merge_chunk env t li xs = Inr merged \<Longrightarrow> length merged = length xs"
  by (auto simp: merge_chunk_def split: if_splits dest!: Promise_all_Inr dest: map_eq_imp_length_eq)

lemma filter_Boolean_length: "length (filter_Boolean ys) \<le> length ys"
  by (induction ys rule: filter_Boolean.induct) auto

lemma deserialize_chunk_length:
  assumes "deserialize_chunk de ds its = Inr xs"
  shows "length xs \<le> length its"
proof -
  obtain rs where rs: "Promise_all (map (\<lambda>(d, t). snd (deserializeItem de d (ti_v t))) (zip ds its)) = Inr rs"
    and xs: "xs = filter_Boolean rs"
    using assms by (auto simp: deserialize_chunk_def split: if_splits sum.splits)
  from Promise_all_Inr [OF rs] have "length rs = length (zip ds its)"
    by (metis length_map)
  with xs filter_Boolean_length [of rs] show ?thesis by simp
qed

lemma invoke_RequestFetch_run:
  assumes "invoke_RequestFetch env d k w = (r, w')"
  shows "sendItems_handlers w' = sendItems_handlers w
         \<and> (\<exists>evs. trace w' = trace w @ Invoke_RequestFetch d # evs
                  \<and> list_all (\<lambda>ev. \<not> is_RequestFetch ev) evs)"
proof -
  let ?w1 = "w\<lparr>trace := trace w @ [Invoke_RequestFetch d]\<rparr>"
  obtain rd wd where dl: "deliver env k 0 (on_RequestFetch_deliveries env (trace ?w1)) ?w1 = (rd, wd)"
    by (cases "deliver env k 0 (on_RequestFetch_deliveries env (trace ?w1)) ?w1")
  from keeps_to_deliver dl obtain evs where e:
    "sendItems_handlers wd = sendItems_handlers ?w1" "trace wd = trace ?w1 @ evs"
    "list_all (\<lambda>ev. \<not> is_RequestFetch ev) evs"
    unfolding keeps_to_def by blast
  from deliver_returns [of env k 0 "on_RequestFetch_deliveries env (trace ?w1)" ?w1] dl
  obtain m where "rd = Inr m" by auto
  with assms dl have "w' = wd" by (simp add: invoke_RequestFetch_def Let_def)
  with e show ?thesis by simp
qed

lemma filter_none: "list_all (\<lambda>ev. \<not> P ev) evs \<Longrightarrow> filter P evs = []"
  by (induction evs) auto

lemma checkConnection_no_fetch:
  "keeps_to (\<lambda>ev. \<not> is_RequestFetch ev) (checkConnection env)"
  by (rule keeps_to_mono [OF keeps_to_checkConnection])
     (auto simp: checkConnection_effect_def is_RequestFetch_def split: effect.splits)

lemma is_RequestFetch_simps [simp]:
  "is_RequestFetch (Invoke_RequestFetch d)"
  "\<not> is_RequestFetch GetEncryptionKey"
  "\<not> is_RequestFetch (ConnectionOff n)"
  "\<not> is_RequestFetch (ConnectionOn n)"
  "\<not> is_RequestFetch (LoggerError m)"
  "\<not> is_RequestFetch (Publish e)"
  "\<not> is_RequestFetch (VaultSetKey vk)"
  by (simp_all add: is_RequestFetch_def)

lemma same_outcome: "m = (r, w') \<Longrightarrow> m = (r2, w2) \<Longrightarrow> w' = w2 \<and> r = r2"
  by simp

lemma checkConnection_quiet:
  assumes "checkConnection env w = (r, w1)"
  shows "\<exists>e1. trace w1 = trace w @ e1 \<and> added w w1 = e1
              \<and> sendItems_handlers w1 = sendItems_handlers w
              \<and> filter is_RequestFetch e1 = []
              \<and> ConnectionOn n \<notin> set e1"
proof -
  from keeps_to_checkConnection assms obtain e1 where c1:
    "sendItems_handlers w1 = sendItems_handlers w" "trace w1 = trace w @ e1"
    "list_all checkConnection_effect e1"
    unfolding keeps_to_def by blast
  from c1(3) have "filter is_RequestFetch e1 = []"
    by (auto simp: filter_empty_conv list_all_iff checkConnection_effect_def is_RequestFetch_def
             split: effect.splits)
  moreover from c1(3) have "ConnectionOn n \<notin> set e1"
    by (auto simp: list_all_iff checkConnection_effect_def)
  moreover note added_append [OF c1(2)]
  ultimately show ?thesis using c1(1,2) by blast
qed




section \<open>Download progress\<close>

text \<open>
  Claim C10. When the connection is up and \<^verbatim>\<open>processChunk\<close> returns, the handler adds
  the full length of the delivered batch to the running count and reports the sum. A batch
  of type "settings" is counted although nothing of it is decrypted or persisted; for any
  batch what is handed to \<^verbatim>\<open>put\<close> is at most as long as the batch, and shorter when
  deserialization drops items. So the reported count can exceed the number of items
  persisted: in a fetch run that receives two settings items and then a topic and a note,
  the count reported last is 4 while one item is persisted.
\<close>

theorem progress_counts_whole_batch:
  assumes conn: "connection_state env (trace w) = Connected"
      and pc: "processChunk env chunk k w = (Inr (), w1)"
  shows "SendItems_handler env k n chunk w
           = (Inr (True, n + length (st_items chunk)),
              w1\<lparr>trace := trace w1 @ [SyncProgress ''download'' (n + length (st_items chunk))]\<rparr>)
       \<and> (st_type chunk = ''settings'' \<longrightarrow> w1 = w)
       \<and> (\<forall>c merged. Put c merged \<in> set (added w w1) \<longrightarrow> length merged \<le> length (st_items chunk))
       \<and> Sync_fetch env_two_deliveries ''device-1'' w0
           = (Inr (),
              \<lparr>trace = [GetEncryptionKey, ConnectionOff ''SendItems'', ConnectionOn ''SendItems'',
                        Invoke_RequestFetch ''device-1'',
                        SyncProgress ''download'' 2,
                        DecryptMulti ex_key (st_items chunk_topic_and_note),
                        Records ''notes'' [''1'', ''2''],
                        Publish (syncItemMerged (Some (stamped plain_note))),
                        Put ''notes'' [Some (stamped plain_note)],
                        SyncProgress ''download'' 4,
                        ConnectionOff ''SendItems''],
               sendItems_handlers = []\<rparr>)"
proof (intro conjI allI impI)
  show "SendItems_handler env k n chunk w
           = (Inr (True, n + length (st_items chunk)),
              w1\<lparr>trace := trace w1 @ [SyncProgress ''download'' (n + length (st_items chunk))]\<rparr>)"
    using conn pc by (simp add: SendItems_handler_def bindM_def get_state_def emit_def returnM_def)
next
  assume "st_type chunk = ''settings''"
  with pc show "w1 = w" by (simp add: processChunk_settings)
next
  fix c merged
  assume "Put c merged \<in> set (added w w1)"
  then have "Put c merged \<in> set (drop (length (trace w)) (trace w1))" by (simp add: added_def)
  from processChunk_Put [OF pc this]
  obtain ds xs li where "deserialize_chunk (denv env) ds (st_items chunk) = Inr xs"
      and "merge_chunk env (st_type chunk) li xs = Inr merged"
    by blast
  with merge_chunk_length deserialize_chunk_length
  show "length merged \<le> length (st_items chunk)" by metis
next
  show "Sync_fetch env_two_deliveries ''device-1'' w0
           = (Inr (),
              \<lparr>trace = [GetEncryptionKey, ConnectionOff ''SendItems'', ConnectionOn ''SendItems'',
                        Invoke_RequestFetch ''device-1'',
                        SyncProgress ''download'' 2,
                        DecryptMulti ex_key (st_items chunk_topic_and_note),
                        Records ''notes'' [''1'', ''2''],
                        Publish (syncItemMerged (Some (stamped plain_note))),
                        Put ''notes'' [Some (stamped plain_note)],
                        SyncProgress ''download'' 4,
                        ConnectionOff ''SendItems''],
               sendItems_handlers = []\<rparr>)"
    by code_simp
qed

theorem progress_counts_whole_batch_witness:
  "connection_state ex_env (trace w0) = Connected
   \<and> processChunk ex_env chunk_settings ex_key w0 = (Inr (), w0)
   \<and> SendItems_handler ex_env ex_key 0 chunk_settings w0
       = (Inr (True, 0 + length (st_items chunk_settings)),
          w0\<lparr>trace := trace w0 @ [SyncProgress ''download'' (0 + length (st_items chunk_settings))]\<rparr>)
   \<and> length (st_items chunk_settings) = 2"
proof -
  have c: "connection_state ex_env (trace w0) = Connected" by code_simp
  have p: "processChunk ex_env chunk_settings ex_key w0 = (Inr (), w0)" by code_simp
  have l: "length (st_items chunk_settings) = 2" by code_simp
  show ?thesis
    by (intro conjI c p l progress_counts_whole_batch [OF c p, THEN conjunct1])
qed

section \<open>Sending: the push protocol\<close>

lemma push_effect_simps [simp]:
  "push_effect (Send_InitializePush vk)"
  "push_effect (Invoke_PushItems d b)"
  "push_effect Send_PushCompleted"
  "\<not> push_effect VaultGetKey"
  "\<not> push_effect (SyncProgress s n)"
  "\<not> push_effect (LoggerError m)"
  "\<not> push_effect PendingAttachments"
  "\<not> push_effect (QueueUploads as t)"
  "\<not> push_effect (Collector_collect n f)"
  by (simp_all add: push_effect_def)

lemma checkConnection_no_push:
  "keeps_to (\<lambda>ev. \<not> push_effect ev) (checkConnection env)"
  by (rule keeps_to_mono [OF keeps_to_checkConnection])
     (auto simp: checkConnection_effect_def push_effect_def split: effect.splits)

lemma initialize_push_run:
  assumes "initialize_push env init w = (r, w')"
  shows "\<exists>evs. trace w' = trace w @ evs
           \<and> (if init then evs = [] \<and> r = Inr ()
               else (\<exists>vk. filter push_effect evs = [Send_InitializePush vk])
                    \<or> filter push_effect evs = [] \<and> (\<exists>e. r = Inl e))"
  using assms
  by (auto simp: initialize_push_def returnM_def bindM_def call_def void_def
           split: if_splits sum.splits option.splits)

lemma pushItem_run:
  assumes "pushItem env d b w = (r, w')"
  shows "\<exists>evs. trace w' = trace w @ evs
           \<and> (filter push_effect evs = [Invoke_PushItems d b]
               \<or> filter push_effect evs = [] \<and> (\<exists>e. r = Inl e))"
proof -
  obtain r1 w1 where c: "checkConnection env w = (r1, w1)" by (cases "checkConnection env w")
  from checkConnection_no_push c obtain e1 where c1: "trace w1 = trace w @ e1"
      "list_all (\<lambda>ev. \<not> push_effect ev) e1"
    unfolding keeps_to_def by blast
  note f1 = filter_none [OF c1(2)]
  show ?thesis
  proof (cases r1)
    case (Inl e)
    with assms c have "w' = w1" "r = Inl e" by (simp_all add: pushItem_def bindM_def)
    with c1 f1 show ?thesis by auto
  next
    case (Inr u)
    with assms c have "w' = w1\<lparr>trace := trace w1 @ [Invoke_PushItems d b]\<rparr>"
      by (auto simp: pushItem_def bindM_def call_def returnM_def split: sum.splits)
    with c1 f1 show ?thesis by auto
  qed
qed


lemma send_loop_run:
  assumes "send_loop env d init n bs w = (r, w')"
  shows "\<exists>evs vk. trace w' = trace w @ evs
           \<and> prefix (filter push_effect evs)
                ((if init \<or> bs = [] then [] else [Send_InitializePush vk]) @ map (Invoke_PushItems d) bs)
           \<and> (\<forall>st. r = Inr st \<longrightarrow>
                  fst st = (init \<or> bs \<noteq> [])
                  \<and> filter push_effect evs
                      = (if init \<or> bs = [] then [] else [Send_InitializePush vk])
                        @ map (Invoke_PushItems d) bs)"
  using assms
proof (induction bs arbitrary: init n w)
  case Nil
  then show ?case by (auto simp: returnM_def)
next
  case (Cons b bs)
  obtain ri wi where i: "initialize_push env init w = (ri, wi)"
    by (cases "initialize_push env init w")
  from initialize_push_run [OF i] obtain ei where ei: "trace wi = trace w @ ei"
    and ci: "if init then ei = [] \<and> ri = Inr ()
             else (\<exists>vk. filter push_effect ei = [Send_InitializePush vk])
                  \<or> filter push_effect ei = [] \<and> (\<exists>e. ri = Inl e)"
    by blast
  obtain vk where vk: "filter push_effect ei = (if init then [] else [Send_InitializePush vk])
                       \<or> filter push_effect ei = [] \<and> (\<exists>e. ri = Inl e)"
    using ci by (cases init) auto
  show ?case
  proof (cases ri)
    case (Inl e)
    with Cons.prems i have "w' = wi" "r = Inl e" by (simp_all add: bindM_def)
    with ei vk show ?thesis
      by (intro exI [of _ ei] exI [of _ vk]) auto
  next
    case (Inr u)
    with vk have fi: "filter push_effect ei = (if init then [] else [Send_InitializePush vk])" by auto
    obtain rp wp where p: "pushItem env d b wi = (rp, wp)" by (cases "pushItem env d b wi")
    from pushItem_run [OF p] obtain ep where ep: "trace wp = trace wi @ ep"
      and cp: "filter push_effect ep = [Invoke_PushItems d b]
               \<or> filter push_effect ep = [] \<and> (\<exists>e. rp = Inl e)"
      by blast
    show ?thesis
    proof (cases rp)
      case (Inl e)
      with Cons.prems i Inr p have "w' = wp" "r = Inl e" by (simp_all add: bindM_def)
      with ei ep fi cp show ?thesis
        by (intro exI [of _ "ei @ ep"] exI [of _ vk]) auto
    next
      case res: (Inr result)
      with cp have fp: "filter push_effect ep = [Invoke_PushItems d b]" by auto
      define ev where "ev = (if result then SyncProgress ''upload'' (n + length (st_items b))
                             else LoggerError ''Failed to send batch. Server returned falsy response.'')"
      define n' where "n' = (if result then n + length (st_items b) else n)"
      have rest: "send_loop env d True n' bs (wp\<lparr>trace := trace wp @ [ev]\<rparr>) = (r, w')"
        using Cons.prems i Inr p res by (simp add: bindM_def emit_def ev_def n'_def split: if_splits)
      from Cons.IH [OF rest] obtain evs vk' where
        t: "trace w' = trace (wp\<lparr>trace := trace wp @ [ev]\<rparr>) @ evs"
        and pre: "prefix (filter push_effect evs) (map (Invoke_PushItems d) bs)"
        and fin: "\<forall>st. r = Inr st \<longrightarrow> fst st = True
                    \<and> filter push_effect evs = map (Invoke_PushItems d) bs"
        by auto
      have nev: "\<not> push_effect ev" by (simp add: ev_def)
      have tr: "trace w' = trace w @ (ei @ ep @ [ev] @ evs)" using t ei ep by simp
      have fl: "filter push_effect (ei @ ep @ [ev] @ evs)
                  = (if init then [] else [Send_InitializePush vk]) @ [Invoke_PushItems d b]
                    @ filter push_effect evs"
        using fi fp nev by simp
      show ?thesis
        using tr fl pre fin
        by (intro exI [of _ "ei @ ep @ [ev] @ evs"] exI [of _ vk]) auto
    qed
  qed
qed

lemma uploadAttachments_no_push:
  "keeps_to (\<lambda>ev. \<not> push_effect ev) (uploadAttachments env)"
  unfolding uploadAttachments_def
  by (intro keeps_to_bindM keeps_to_call keeps_to_void) simp_all

lemma pushItem_unhindered:
  assumes "send_unhindered env"
  shows "\<exists>b. fst (pushItem env d b0 w) = Inr b"
proof -
  from assms have c: "connection_state env (trace w) = Connected" by (simp add: send_unhindered_def)
  from assms obtain j where "on_PushItems env (trace w @ [Invoke_PushItems d b0]) = Inr j"
    unfolding send_unhindered_def by blast
  with checkConnection_connected [OF c] show ?thesis
    by (simp add: pushItem_def bindM_def call_def returnM_def)
qed

lemma initialize_push_unhindered:
  assumes "send_unhindered env"
  shows "fst (initialize_push env init w) = Inr ()"
proof -
  from assms obtain vk where "on_vault_getKey env (trace w @ [VaultGetKey]) = Inr vk"
    unfolding send_unhindered_def by blast
  moreover from assms have "\<And>tr. on_void env tr = None" by (simp add: send_unhindered_def)
  ultimately show ?thesis
    by (simp add: initialize_push_def bindM_def call_def void_def returnM_def)
qed

lemma send_loop_unhindered:
  assumes "send_unhindered env"
  shows "\<exists>st. fst (send_loop env d init n bs w) = Inr st"
proof (induction bs arbitrary: init n w)
  case Nil
  show ?case by (simp add: returnM_def)
next
  case (Cons b bs)
  obtain wi where i: "initialize_push env init w = (Inr (), wi)"
    using initialize_push_unhindered [OF assms, of init w]
    by (cases "initialize_push env init w") auto
  obtain result wp where p: "pushItem env d b wi = (Inr result, wp)"
    using pushItem_unhindered [OF assms, of d b wi]
    by (cases "pushItem env d b wi") auto
  show ?case
    using i p Cons.IH by (simp add: bindM_def emit_def)
qed

lemma uploadAttachments_unhindered:
  assumes "send_unhindered env"
  shows "fst (uploadAttachments env w) = Inr ()"
proof -
  from assms obtain a where "on_pending_attachments env (trace w @ [PendingAttachments]) = Inr a"
    unfolding send_unhindered_def by blast
  moreover from assms have "\<And>tr. on_void env tr = None" by (simp add: send_unhindered_def)
  ultimately show ?thesis
    by (simp add: uploadAttachments_def bindM_def call_def void_def)
qed

lemma Sync_send_unhindered:
  assumes "send_unhindered env"
  shows "\<exists>b. fst (Sync_send env d f w) = Inr b"
proof -
  obtain wu where u: "uploadAttachments env w = (Inr (), wu)"
    using uploadAttachments_unhindered [OF assms, of w] by (cases "uploadAttachments env w") auto
  let ?wc = "wu\<lparr>trace := trace wu @ [Collector_collect 100 f]\<rparr>"
  obtain st wl where l: "send_loop env d False 0 (fst (on_collect env (trace ?wc))) ?wc = (Inr st, wl)"
    using send_loop_unhindered [OF assms, of d False 0 "fst (on_collect env (trace ?wc))" ?wc]
    by (cases "send_loop env d False 0 (fst (on_collect env (trace ?wc))) ?wc") auto
  from assms have "snd (on_collect env (trace ?wc)) = None" "\<And>tr. on_void env tr = None"
    by (simp_all add: send_unhindered_def)
  with u l show ?thesis
    by (auto simp: Sync_send_def bindM_def call_def void_def returnM_def)
qed


text \<open>
  Claim C1. Every run of \<^verbatim>\<open>send\<close> that gets as far as asking the collector falls
  under one of two cases. If the collector yields no batch, neither
  \<^verbatim>\<open>InitializePush\<close> nor \<^verbatim>\<open>PushCompleted\<close> (nor \<^verbatim>\<open>PushItems\<close>) is sent and
  the run returns false. If it yields at least one batch, the push calls of a run that
  returns are exactly one \<^verbatim>\<open>InitializePush\<close>, then one \<^verbatim>\<open>PushItems\<close> per batch in
  the order of the collector, then \<^verbatim>\<open>PushCompleted\<close>, and it returns true, also when
  the server acknowledged a batch with a falsy value. A run that an exception ends has
  sent a prefix of that sequence and returns nothing; when the connection is up and no
  call fails, the run returns.
\<close>

theorem send_push_protocol:
  assumes run: "Sync_send env deviceId isForceSync w = (r, w')"
  shows "(send_unhindered env \<longrightarrow> (\<exists>b. r = Inr b))
       \<and> ((\<exists>pre e. trace w' = trace w @ pre \<and> filter push_effect pre = [] \<and> r = Inl e)
          \<or> (\<exists>pre post batches fin vk.
               trace w' = trace w @ pre @ Collector_collect 100 isForceSync # post
               \<and> filter push_effect pre = []
               \<and> on_collect env (trace w @ pre @ [Collector_collect 100 isForceSync]) = (batches, fin)
               \<and> (batches = [] \<longrightarrow>
                     filter push_effect post = [] \<and> r \<noteq> Inr True \<and> (fin = None \<longrightarrow> r = Inr False))
               \<and> (batches \<noteq> [] \<longrightarrow>
                     prefix (filter push_effect post)
                       (Send_InitializePush vk # map (Invoke_PushItems deviceId) batches
                          @ [Send_PushCompleted])
                     \<and> r \<noteq> Inr False
                     \<and> (r = Inr True \<longrightarrow>
                          filter push_effect post
                            = Send_InitializePush vk # map (Invoke_PushItems deviceId) batches
                                @ [Send_PushCompleted]))))"
proof
  show "send_unhindered env \<longrightarrow> (\<exists>b. r = Inr b)"
    using Sync_send_unhindered [of env deviceId isForceSync w] run by auto
next
  obtain ru wu where u: "uploadAttachments env w = (ru, wu)" by (cases "uploadAttachments env w")
  from uploadAttachments_no_push u obtain eu where eu: "trace wu = trace w @ eu"
      "list_all (\<lambda>ev. \<not> push_effect ev) eu"
    unfolding keeps_to_def by blast
  note fu = filter_none [OF eu(2)]
  show "(\<exists>pre e. trace w' = trace w @ pre \<and> filter push_effect pre = [] \<and> r = Inl e)
          \<or> (\<exists>pre post batches fin vk.
               trace w' = trace w @ pre @ Collector_collect 100 isForceSync # post
               \<and> filter push_effect pre = []
               \<and> on_collect env (trace w @ pre @ [Collector_collect 100 isForceSync]) = (batches, fin)
               \<and> (batches = [] \<longrightarrow>
                     filter push_effect post = [] \<and> r \<noteq> Inr True \<and> (fin = None \<longrightarrow> r = Inr False))
               \<and> (batches \<noteq> [] \<longrightarrow>
                     prefix (filter push_effect post)
                       (Send_InitializePush vk # map (Invoke_PushItems deviceId) batches
                          @ [Send_PushCompleted])
                     \<and> r \<noteq> Inr False
                     \<and> (r = Inr True \<longrightarrow>
                          filter push_effect post
                            = Send_InitializePush vk # map (Invoke_PushItems deviceId) batches
                                @ [Send_PushCompleted])))"
  proof (cases ru)
    case (Inl e)
    with run u have "w' = wu" "r = Inl e" by (simp_all add: Sync_send_def bindM_def)
    with eu fu show ?thesis by blast
  next
    case (Inr uu)
    let ?wc = "wu\<lparr>trace := trace wu @ [Collector_collect 100 isForceSync]\<rparr>"
    obtain batches fin where col:
      "on_collect env (trace w @ eu @ [Collector_collect 100 isForceSync]) = (batches, fin)"
      by (cases "on_collect env (trace w @ eu @ [Collector_collect 100 isForceSync])")
    obtain rl wl where l: "send_loop env deviceId False 0 batches ?wc = (rl, wl)"
      by (cases "send_loop env deviceId False 0 batches ?wc")
    from send_loop_run [OF l] obtain evs vk where
      tl: "trace wl = trace ?wc @ evs"
      and pl: "prefix (filter push_effect evs)
                 ((if batches = [] then [] else [Send_InitializePush vk])
                  @ map (Invoke_PushItems deviceId) batches)"
      and fl: "\<forall>st. rl = Inr st \<longrightarrow> fst st = (batches \<noteq> [])
                 \<and> filter push_effect evs
                     = (if batches = [] then [] else [Send_InitializePush vk])
                       @ map (Invoke_PushItems deviceId) batches"
      by auto
    have rest: "Sync_send env deviceId isForceSync w =
        (case rl of
           Inl e \<Rightarrow> (Inl e, wl)
         | Inr st \<Rightarrow>
             (case fin of
                Some e \<Rightarrow> (Inl e, wl)
              | None \<Rightarrow>
                  if \<not> fst st then (Inr False, wl)
                  else (case on_void env (trace wl @ [Send_PushCompleted]) of
                          None \<Rightarrow> (Inr True, wl\<lparr>trace := trace wl @ [Send_PushCompleted]\<rparr>)
                        | Some e \<Rightarrow> (Inl e, wl\<lparr>trace := trace wl @ [Send_PushCompleted]\<rparr>))))"
      using u Inr col l eu(1)
      by (simp add: Sync_send_def bindM_def call_def void_def returnM_def throwM_def
               split: sum.splits option.splits)
    have "\<exists>post. trace w' = trace w @ eu @ Collector_collect 100 isForceSync # post
               \<and> (batches = [] \<longrightarrow>
                     filter push_effect post = [] \<and> r \<noteq> Inr True \<and> (fin = None \<longrightarrow> r = Inr False))
               \<and> (batches \<noteq> [] \<longrightarrow>
                     prefix (filter push_effect post)
                       (Send_InitializePush vk # map (Invoke_PushItems deviceId) batches
                          @ [Send_PushCompleted])
                     \<and> r \<noteq> Inr False
                     \<and> (r = Inr True \<longrightarrow>
                          filter push_effect post
                            = Send_InitializePush vk # map (Invoke_PushItems deviceId) batches
                                @ [Send_PushCompleted]))"
    proof (cases rl)
      case (Inl e)
      with rest run have "w' = wl" "r = Inl e" by simp_all
      moreover have ne: "batches \<noteq> []" using Inl l by (auto simp: returnM_def)
      moreover from pl ne have "prefix (filter push_effect evs)
          (Send_InitializePush vk # map (Invoke_PushItems deviceId) batches)" by simp
      from prefix_prefix [OF this, of "[Send_PushCompleted]"]
      have "prefix (filter push_effect evs)
          (Send_InitializePush vk # map (Invoke_PushItems deviceId) batches @ [Send_PushCompleted])"
        by simp
      ultimately show ?thesis using tl eu(1)
        by (intro exI [of _ evs]) auto
    next
      case st: (Inr st)
      with fl have f: "fst st = (batches \<noteq> [])"
        "filter push_effect evs = (if batches = [] then [] else [Send_InitializePush vk])
                       @ map (Invoke_PushItems deviceId) batches"
        by auto
      show ?thesis
      proof (cases fin)
        case (Some e)
        with rest run st have "w' = wl" "r = Inl e" by simp_all
        then show ?thesis using tl f eu(1) Some
          by (intro exI [of _ evs]) auto
      next
        case None
        show ?thesis
        proof (cases "batches = []")
          case True
          with rest run st None f have "w' = wl" "r = Inr False" by simp_all
          then show ?thesis using tl f eu(1) True
            by (intro exI [of _ evs]) auto
        next
          case False
          show ?thesis
          proof (cases "on_void env (trace wl @ [Send_PushCompleted])")
            case n: None
            with rest run st None f False have
              "w' = wl\<lparr>trace := trace wl @ [Send_PushCompleted]\<rparr>" "r = Inr True" by simp_all
            then show ?thesis using tl f eu(1) False
              by (intro exI [of _ "evs @ [Send_PushCompleted]"]) auto
          next
            case (Some e)
            with rest run st None f False have
              "w' = wl\<lparr>trace := trace wl @ [Send_PushCompleted]\<rparr>" "r = Inl e" by simp_all
            then show ?thesis using tl f eu(1) False
              by (intro exI [of _ "evs @ [Send_PushCompleted]"]) auto
          qed
        qed
      qed
    qed
    with col fu show ?thesis by blast
  qed
qed

theorem send_push_protocol_witness:
  "send_unhindered env_two_batches
   \<and> Sync_send env_two_batches ''device-1'' None w0
       = (Inr True,
          \<lparr>trace = [PendingAttachments, QueueUploads [] ''sync-uploads'',
                    Collector_collect 100 None, VaultGetKey, Send_InitializePush None,
                    Invoke_PushItems ''device-1'' batch_a, SyncProgress ''upload'' 2,
                    Invoke_PushItems ''device-1'' batch_b,
                    LoggerError ''Failed to send batch. Server returned falsy response.'',
                    Send_PushCompleted],
           sendItems_handlers = []\<rparr>)
   \<and> (\<exists>b. (Inr True :: thrown + bool) = Inr b)
   \<and> send_unhindered ex_env
   \<and> Sync_send ex_env ''device-1'' None w0
       = (Inr False,
          \<lparr>trace = [PendingAttachments, QueueUploads [] ''sync-uploads'',
                    Collector_collect 100 None],
           sendItems_handlers = []\<rparr>)
   \<and> (\<exists>b. (Inr False :: thrown + bool) = Inr b)"
proof -
  have u2: "send_unhindered env_two_batches"
    by (simp add: send_unhindered_def env_two_batches_def ex_env_def)
  have r2: "Sync_send env_two_batches ''device-1'' None w0
       = (Inr True,
          \<lparr>trace = [PendingAttachments, QueueUploads [] ''sync-uploads'',
                    Collector_collect 100 None, VaultGetKey, Send_InitializePush None,
                    Invoke_PushItems ''device-1'' batch_a, SyncProgress ''upload'' 2,
                    Invoke_PushItems ''device-1'' batch_b,
                    LoggerError ''Failed to send batch. Server returned falsy response.'',
                    Send_PushCompleted],
           sendItems_handlers = []\<rparr>)"
    by code_simp
  have u0: "send_unhindered ex_env"
    by (simp add: send_unhindered_def ex_env_def)
  have r0: "Sync_send ex_env ''device-1'' None w0
       = (Inr False,
          \<lparr>trace = [PendingAttachments, QueueUploads [] ''sync-uploads'',
                    Collector_collect 100 None],
           sendItems_handlers = []\<rparr>)"
    by code_simp
  note a = send_push_protocol [OF r2, THEN conjunct1, rule_format, OF u2]
  note b = send_push_protocol [OF r0, THEN conjunct1, rule_format, OF u0]
  show ?thesis
    by (intro conjI u2 r2 a u0 r0 b)
qed

section \<open>Errors of a sync run\<close>

lemma start_try_Inr: "start_try env options w = (Inr b, w1) \<Longrightarrow> b"
  by (auto simp: start_try_def bindM_def returnM_def split: sum.splits prod.splits)

lemma start_catch_returns:
  assumes "start_catch env e w1 = (Inr b, w')"
  shows "\<not> b \<and> (\<exists>m u. message e = Some m \<and> str_includes m ''HubException:''
                  \<and> recoverable_text (errorText_of m)
                  \<and> on_getUser env (trace w1 @ [GetUser]) = Inr u \<and> confirmed u
                  \<and> on_void env (trace w1 @ [GetUser, RefreshToken True]) = None
                  \<and> w' = w1\<lparr>trace := trace w1 @ [GetUser, RefreshToken True]\<rparr>)"
  using assms
  by (auto simp: start_catch_def throwM_def bindM_def call_def void_def returnM_def
           split: option.splits if_splits sum.splits)

text \<open>
  Claim C4, amended. \<^verbatim>\<open>SyncManager.start\<close> returns true when its \<^verbatim>\<open>try\<close> block
  completes. When the block raises an error whose message does not contain
  "HubException:", the same error reaches the caller. When the message contains it, the
  error text is what follows "HubException: " on that line (the whole message when nothing
  does); if this text contains "Please confirm your email " or "Invalid token." and the
  stored user is marked as confirmed, exactly one token refresh is made, forced, and
  \<^verbatim>\<open>start\<close> returns false; otherwise a new error carrying the error text is raised.
  \<^verbatim>\<open>start\<close> returns false in no other case.
\<close>

theorem start_recovery:
  "(\<forall>b w1. start_try env options w = (Inr b, w1)
       \<longrightarrow> SyncManager_start env options w = (Inr True, w1))
   \<and> (\<forall>e w1 m. start_try env options w = (Inl e, w1) \<and> message e = Some m \<longrightarrow>
        (\<not> str_includes m ''HubException:''
           \<longrightarrow> SyncManager_start env options w = (Inl e, w1))
        \<and> (str_includes m ''HubException:'' \<and> \<not> recoverable_text (errorText_of m)
             \<longrightarrow> SyncManager_start env options w = (Inl (Error (errorText_of m)), w1))
        \<and> (str_includes m ''HubException:'' \<and> recoverable_text (errorText_of m) \<longrightarrow>
             (\<forall>u. on_getUser env (trace w1 @ [GetUser]) = Inr u \<longrightarrow>
                (confirmed u \<and> on_void env (trace w1 @ [GetUser, RefreshToken True]) = None
                   \<longrightarrow> SyncManager_start env options w
                         = (Inr False, w1\<lparr>trace := trace w1 @ [GetUser, RefreshToken True]\<rparr>))
                \<and> (\<not> confirmed u
                   \<longrightarrow> SyncManager_start env options w
                         = (Inl (Error (errorText_of m)), w1\<lparr>trace := trace w1 @ [GetUser]\<rparr>)))))
   \<and> (\<forall>w'. SyncManager_start env options w = (Inr False, w') \<longrightarrow>
        (\<exists>e w1 m u. start_try env options w = (Inl e, w1) \<and> message e = Some m
            \<and> str_includes m ''HubException:'' \<and> recoverable_text (errorText_of m)
            \<and> on_getUser env (trace w1 @ [GetUser]) = Inr u \<and> confirmed u
            \<and> w' = w1\<lparr>trace := trace w1 @ [GetUser, RefreshToken True]\<rparr>))"
proof (intro conjI)
  show "\<forall>b w1. start_try env options w = (Inr b, w1)
       \<longrightarrow> SyncManager_start env options w = (Inr True, w1)"
  proof (intro allI impI)
    fix b w1 assume "start_try env options w = (Inr b, w1)"
    with start_try_Inr [OF this] show "SyncManager_start env options w = (Inr True, w1)"
      by (simp add: SyncManager_start_def catchM_def)
  qed
next
  show "\<forall>e w1 m. start_try env options w = (Inl e, w1) \<and> message e = Some m \<longrightarrow>
        (\<not> str_includes m ''HubException:''
           \<longrightarrow> SyncManager_start env options w = (Inl e, w1))
        \<and> (str_includes m ''HubException:'' \<and> \<not> recoverable_text (errorText_of m)
             \<longrightarrow> SyncManager_start env options w = (Inl (Error (errorText_of m)), w1))
        \<and> (str_includes m ''HubException:'' \<and> recoverable_text (errorText_of m) \<longrightarrow>
             (\<forall>u. on_getUser env (trace w1 @ [GetUser]) = Inr u \<longrightarrow>
                (confirmed u \<and> on_void env (trace w1 @ [GetUser, RefreshToken True]) = None
                   \<longrightarrow> SyncManager_start env options w
                         = (Inr False, w1\<lparr>trace := trace w1 @ [GetUser, RefreshToken True]\<rparr>))
                \<and> (\<not> confirmed u
                   \<longrightarrow> SyncManager_start env options w
                         = (Inl (Error (errorText_of m)), w1\<lparr>trace := trace w1 @ [GetUser]\<rparr>))))"
  proof (intro allI impI)
    fix e w1 m
    assume h: "start_try env options w = (Inl e, w1) \<and> message e = Some m"
    then have c: "SyncManager_start env options w = start_catch env e w1"
      by (simp add: SyncManager_start_def catchM_def)
    show "(\<not> str_includes m ''HubException:''
           \<longrightarrow> SyncManager_start env options w = (Inl e, w1))
        \<and> (str_includes m ''HubException:'' \<and> \<not> recoverable_text (errorText_of m)
             \<longrightarrow> SyncManager_start env options w = (Inl (Error (errorText_of m)), w1))
        \<and> (str_includes m ''HubException:'' \<and> recoverable_text (errorText_of m) \<longrightarrow>
             (\<forall>u. on_getUser env (trace w1 @ [GetUser]) = Inr u \<longrightarrow>
                (confirmed u \<and> on_void env (trace w1 @ [GetUser, RefreshToken True]) = None
                   \<longrightarrow> SyncManager_start env options w
                         = (Inr False, w1\<lparr>trace := trace w1 @ [GetUser, RefreshToken True]\<rparr>))
                \<and> (\<not> confirmed u
                   \<longrightarrow> SyncManager_start env options w
                         = (Inl (Error (errorText_of m)), w1\<lparr>trace := trace w1 @ [GetUser]\<rparr>))))"
      using h c
      by (simp add: start_catch_def throwM_def bindM_def call_def void_def returnM_def)
  qed
next
  show "\<forall>w'. SyncManager_start env options w = (Inr False, w') \<longrightarrow>
        (\<exists>e w1 m u. start_try env options w = (Inl e, w1) \<and> message e = Some m
            \<and> str_includes m ''HubException:'' \<and> recoverable_text (errorText_of m)
            \<and> on_getUser env (trace w1 @ [GetUser]) = Inr u \<and> confirmed u
            \<and> w' = w1\<lparr>trace := trace w1 @ [GetUser, RefreshToken True]\<rparr>)"
  proof (intro allI impI)
    fix w' assume r: "SyncManager_start env options w = (Inr False, w')"
    obtain rt w1 where t: "start_try env options w = (rt, w1)" by (cases "start_try env options w")
    show "\<exists>e w1 m u. start_try env options w = (Inl e, w1) \<and> message e = Some m
            \<and> str_includes m ''HubException:'' \<and> recoverable_text (errorText_of m)
            \<and> on_getUser env (trace w1 @ [GetUser]) = Inr u \<and> confirmed u
            \<and> w' = w1\<lparr>trace := trace w1 @ [GetUser, RefreshToken True]\<rparr>"
    proof (cases rt)
      case (Inr b)
      with t start_try_Inr [of env options w b w1] r show ?thesis
        by (simp add: SyncManager_start_def catchM_def)
    next
      case (Inl e)
      with t r have "start_catch env e w1 = (Inr False, w')"
        by (simp add: SyncManager_start_def catchM_def)
      from start_catch_returns [OF this] t Inl show ?thesis by blast
    qed
  qed
qed

text \<open>
  Claim C4 as stated fails: a hub exception "Invalid token.", which says nothing about
  the confirmation of an email address, is recovered in the same way when the account is
  confirmed.
\<close>

theorem invalid_token_recovered_counterexample:
  "SyncManager_start env_invalid_token fetch_only w0
     = (Inr False, w_request_failed\<lparr>trace := trace w_request_failed @ [GetUser, RefreshToken True]\<rparr>)
   \<and> start_try env_invalid_token fetch_only w0 = (Inl (Error msg_invalid_token), w_request_failed)
   \<and> errorText_of msg_invalid_token = ''Invalid token.''
   \<and> \<not> str_includes msg_invalid_token ''Please confirm your email ''
   \<and> \<not> str_includes msg_invalid_token ''email''"
  by code_simp

theorem start_recovery_witness:
  "start_try env_confirm_email fetch_only w0 = (Inl (Error msg_confirm_email), w_request_failed)
   \<and> errorText_of msg_confirm_email = ''Please confirm your email to sync.''
   \<and> SyncManager_start env_confirm_email fetch_only w0
       = (Inr False, w_request_failed\<lparr>trace := trace w_request_failed @ [GetUser, RefreshToken True]\<rparr>)
   \<and> start_try env_quota fetch_only w0 = (Inl (Error msg_quota), w_request_failed)
   \<and> errorText_of msg_quota = ''Quota exceeded.''
   \<and> SyncManager_start env_quota fetch_only w0 = (Inl (Error (errorText_of msg_quota)), w_request_failed)
   \<and> SyncManager_start env_fetch_fails fetch_only w0
       = (Inl (Error ''Server timeout elapsed without receiving a message from the server.''),
          w_request_failed)
   \<and> SyncManager_start (ex_env\<lparr>on_getUser := (\<lambda>tr. Inr None)\<rparr>) fetch_only w0
       = (Inr True, \<lparr>trace = [AutoSyncStart, CheckSyncStatus SYNC_CHECK_sync, GetUser],
                     sendItems_handlers = []\<rparr>)
   \<and> (\<exists>e w1 m u. start_try env_confirm_email fetch_only w0 = (Inl e, w1) \<and> message e = Some m
          \<and> str_includes m ''HubException:'' \<and> recoverable_text (errorText_of m)
          \<and> on_getUser env_confirm_email (trace w1 @ [GetUser]) = Inr u \<and> confirmed u
          \<and> w_request_failed\<lparr>trace := trace w_request_failed @ [GetUser, RefreshToken True]\<rparr>
              = w1\<lparr>trace := trace w1 @ [GetUser, RefreshToken True]\<rparr>)"
proof -
  have tc: "start_try env_confirm_email fetch_only w0 = (Inl (Error msg_confirm_email), w_request_failed)
            \<and> message (Error msg_confirm_email) = Some msg_confirm_email"
    by code_simp
  have ec: "errorText_of msg_confirm_email = ''Please confirm your email to sync.''" by code_simp
  have ic: "str_includes msg_confirm_email ''HubException:''
            \<and> recoverable_text (errorText_of msg_confirm_email)"
    by code_simp
  have uc: "on_getUser env_confirm_email (trace w_request_failed @ [GetUser])
              = Inr (Some \<lparr>isEmailConfirmed = True\<rparr>)"
    by code_simp
  have cc: "confirmed (Some \<lparr>isEmailConfirmed = True\<rparr>)
            \<and> on_void env_confirm_email (trace w_request_failed @ [GetUser, RefreshToken True]) = None"
    by code_simp
  note A = start_recovery [of env_confirm_email fetch_only w0, THEN conjunct2, THEN conjunct1,
      rule_format, OF tc, THEN conjunct2, THEN conjunct2, rule_format, OF ic uc, THEN conjunct1,
      rule_format, OF cc]
  have tq: "start_try env_quota fetch_only w0 = (Inl (Error msg_quota), w_request_failed)
            \<and> message (Error msg_quota) = Some msg_quota"
    by code_simp
  have eq: "errorText_of msg_quota = ''Quota exceeded.''" by code_simp
  have iq: "str_includes msg_quota ''HubException:'' \<and> \<not> recoverable_text (errorText_of msg_quota)"
    by code_simp
  note B = start_recovery [of env_quota fetch_only w0, THEN conjunct2, THEN conjunct1,
      rule_format, OF tq, THEN conjunct2, THEN conjunct1, rule_format, OF iq]
  have tf: "start_try env_fetch_fails fetch_only w0
              = (Inl (Error ''Server timeout elapsed without receiving a message from the server.''),
                 w_request_failed)
            \<and> message (Error ''Server timeout elapsed without receiving a message from the server.'')
              = Some ''Server timeout elapsed without receiving a message from the server.''"
    by code_simp
  have nf: "\<not> str_includes ''Server timeout elapsed without receiving a message from the server.''
              ''HubException:''"
    by code_simp
  note C = start_recovery [of env_fetch_fails fetch_only w0, THEN conjunct2, THEN conjunct1,
      rule_format, OF tf, THEN conjunct1, rule_format, OF nf]
  have ts: "start_try (ex_env\<lparr>on_getUser := (\<lambda>tr. Inr None)\<rparr>) fetch_only w0
              = (Inr True, \<lparr>trace = [AutoSyncStart, CheckSyncStatus SYNC_CHECK_sync, GetUser],
                            sendItems_handlers = []\<rparr>)"
    by code_simp
  note D = start_recovery [of "ex_env\<lparr>on_getUser := (\<lambda>tr. Inr None)\<rparr>" fetch_only w0,
      THEN conjunct1, rule_format, OF ts]
  note E = start_recovery [of env_confirm_email fetch_only w0, THEN conjunct2, THEN conjunct2,
      rule_format, OF A]
  show ?thesis
    by (intro conjI tc [THEN conjunct1] ec A tq [THEN conjunct1] eq B C D E)
qed

end
